theory Spec2Isabelle
  imports Complex_Main "HOL-Library.AList" "HOL-Library.Char_ord" "HOL-Library.List_Lexorder"
    "HOL-Library.Option_ord" "HOL-Library.Multiset"
begin

section \<open>Python values and library functions\<close>

text \<open>
  Field values are text or null, as the CSV loader produces them: a value is a
  \<open>string option\<close>, \<open>None\<close> being Python's \<open>None\<close>.  Python's truth test of such a value
  (\<open>if valor:\<close>, \<open>valor or ""\<close>) is false for \<open>None\<close> and for the empty string.
  Python orders strings lexicographically by code point; here a string is a list of
  characters ordered lexicographically by character code.
\<close>

type_synonym valor = "string option"

definition truthy :: "valor \<Rightarrow> bool" where
  "truthy v = (case v of None \<Rightarrow> False | Some s \<Rightarrow> s \<noteq> [])"

text \<open>
  The numbers of the program are Python floats.  The functions of the Python library that
  work on them are parameters of the model, collected in one record: \<open>py_float\<close> is
  \<open>float(s)\<close> on a string, \<open>None\<close> standing for the \<open>ValueError\<close> of a string that is not a
  number; \<open>py_round2\<close> is \<open>round(x, 2)\<close>; \<open>py_eq\<close> is \<open>==\<close> on two floats, which is false
  whenever one of them is a nan; the others are \<open>sum\<close>, \<open>min\<close>, \<open>max\<close> and the functions of
  the module \<open>statistics\<close>.  \<open>min\<close>, \<open>max\<close> and the functions of \<open>statistics\<close> can raise: on
  empty data, and \<open>statistics.stdev\<close> and \<open>statistics.variance\<close> also on values that
  \<open>float\<close> accepts (\<open>AttributeError\<close> on a nan or an infinity, \<open>OverflowError\<close> on values
  such as \<open>1e200\<close>); their result is the exception (\<open>Inl\<close>) or the number (\<open>Inr\<close>).  The
  number type \<open>'n\<close> is arbitrary; the program adds numbers (starting from zero) and compares
  them, so it comes with \<open>0\<close>, \<open>+\<close> and \<open>\<le>\<close>, and nothing is assumed of these or of the
  library beyond what each theorem states.
\<close>

datatype py_error = StatisticsError | ValueError | OverflowError | AttributeError

record 'n pylib =
  py_float :: "string \<Rightarrow> 'n option"
  py_round2 :: "'n \<Rightarrow> 'n"
  py_eq :: "'n \<Rightarrow> 'n \<Rightarrow> bool"
  py_sum :: "'n list \<Rightarrow> 'n"
  py_min :: "'n list \<Rightarrow> py_error + 'n"
  py_max :: "'n list \<Rightarrow> py_error + 'n"
  py_mean :: "'n list \<Rightarrow> py_error + 'n"
  py_median :: "'n list \<Rightarrow> py_error + 'n"
  py_stdev :: "'n list \<Rightarrow> py_error + 'n"
  py_variance :: "'n list \<Rightarrow> py_error + 'n"

text \<open>An exception that is not caught ends the function: the rest is not evaluated.\<close>

definition entonces :: "py_error + 'a \<Rightarrow> ('a \<Rightarrow> py_error + 'b) \<Rightarrow> py_error + 'b" where
  "entonces r f = (case r of Inl e \<Rightarrow> Inl e | Inr x \<Rightarrow> f x)"

text \<open>
  \<open>xs[i:]\<close> for a list and an integer \<open>i\<close>: a negative index counts from the end, and the
  start is clipped to the list.
\<close>

definition py_slice_from :: "int \<Rightarrow> 'a list \<Rightarrow> 'a list" where
  "py_slice_from i xs =
     (let len = int (length xs);
          start = (if i < 0 then max (len + i) 0 else min i len)
      in drop (nat start) xs)"

text \<open>
  \<open>list.sort(key=..., reverse=...)\<close> and \<open>sorted\<close>: the sort is stable; with
  \<open>reverse=True\<close> the list is reversed, sorted and reversed again, so that the keys descend
  and records with equal keys still keep their order.
\<close>

definition py_sort :: "('a \<Rightarrow> 'k::linorder) \<Rightarrow> bool \<Rightarrow> 'a list \<Rightarrow> 'a list" where
  "py_sort key reverse xs =
     (if reverse then rev (sort_key key (rev xs)) else sort_key key xs)"


section \<open>modelos/registro.py\<close>

text \<open>
  A \<open>Registro\<close> wraps a dict from field names to values.  The dict is an association list in
  insertion order, with distinct keys.
\<close>

type_synonym registro = "(string \<times> valor) list"

definition obtener_campo :: "registro \<Rightarrow> string \<Rightarrow> valor" where
  "obtener_campo r nombre_campo =
     (case map_of r nombre_campo of None \<Rightarrow> None | Some v \<Rightarrow> v)"

definition obtener_todos_campos :: "registro \<Rightarrow> (string \<times> valor) list" where
  "obtener_todos_campos r = r"

definition tiene_campo :: "registro \<Rightarrow> string \<Rightarrow> bool" where
  "tiene_campo r nombre_campo = (nombre_campo \<in> set (map fst r))"

definition es_valido :: "registro \<Rightarrow> bool" where
  "es_valido r = (length r > 0)"

text \<open>
  \<open>__eq__\<close> compares the two dicts: the same keys, and the same value at each key, in
  whatever order the keys were inserted.
\<close>

definition registro_eq :: "registro \<Rightarrow> registro \<Rightarrow> bool" where
  "registro_eq a b =
     (set (map fst a) = set (map fst b) \<and> (\<forall>k \<in> set (map fst a). map_of a k = map_of b k))"


section \<open>modelos/dataset.py\<close>

record Dataset =
  nombre :: string
  registros :: "registro list"

definition Dataset_init :: "string \<Rightarrow> Dataset" where
  "Dataset_init n = \<lparr>nombre = n, registros = []\<rparr>"

definition agregar_registro :: "Dataset \<Rightarrow> registro \<Rightarrow> Dataset" where
  "agregar_registro d r = d\<lparr>registros := registros d @ [r]\<rparr>"

definition agregar_registros :: "Dataset \<Rightarrow> registro list \<Rightarrow> Dataset" where
  "agregar_registros d rs = foldl agregar_registro d rs"

definition obtener_registros :: "Dataset \<Rightarrow> registro list" where
  "obtener_registros d = registros d"

definition cantidad_registros :: "Dataset \<Rightarrow> nat" where
  "cantidad_registros d = length (registros d)"

definition esta_vacio :: "Dataset \<Rightarrow> bool" where
  "esta_vacio d = (length (registros d) = 0)"

definition limpiar :: "Dataset \<Rightarrow> Dataset" where
  "limpiar d = d\<lparr>registros := []\<rparr>"

text \<open>
  \<open>filtrar\<close>: the loop over the records of \<open>self\<close>, appending to the new dataset.  The
  function returns \<open>self\<close> as the call leaves it together with the new dataset.
\<close>

fun filtrar_loop :: "(registro \<Rightarrow> bool) \<Rightarrow> registro list \<Rightarrow> Dataset \<Rightarrow> Dataset" where
  "filtrar_loop condicion [] dataset_filtrado = dataset_filtrado"
| "filtrar_loop condicion (r # rs) dataset_filtrado =
     filtrar_loop condicion rs
       (if condicion r then agregar_registro dataset_filtrado r else dataset_filtrado)"

definition filtrar :: "Dataset \<Rightarrow> (registro \<Rightarrow> bool) \<Rightarrow> Dataset \<times> Dataset" where
  "filtrar self condicion =
     (self, filtrar_loop condicion (registros self) (Dataset_init (nombre self @ ''_filtrado'')))"

text \<open>The sort key \<open>r.obtener_campo(campo) or ""\<close>.\<close>

definition clave_orden :: "string \<Rightarrow> registro \<Rightarrow> string" where
  "clave_orden campo r =
     (case obtener_campo r campo of None \<Rightarrow> [] | Some v \<Rightarrow> if truthy (Some v) then v else [])"

definition ordenar :: "Dataset \<Rightarrow> string \<Rightarrow> bool \<Rightarrow> Dataset" where
  "ordenar self campo reverso =
     self\<lparr>registros := py_sort (clave_orden campo) reverso (registros self)\<rparr>"

definition obtener_campos :: "Dataset \<Rightarrow> string list" where
  "obtener_campos self =
     (if esta_vacio self then []
      else case registros self of [] \<Rightarrow> [] | r # _ \<Rightarrow> map fst (obtener_todos_campos r))"

fun obtener_valores_campo_loop :: "string \<Rightarrow> registro list \<Rightarrow> string list \<Rightarrow> string list" where
  "obtener_valores_campo_loop nombre_campo [] valores = valores"
| "obtener_valores_campo_loop nombre_campo (r # rs) valores =
     obtener_valores_campo_loop nombre_campo rs
       (case obtener_campo r nombre_campo of None \<Rightarrow> valores | Some v \<Rightarrow> valores @ [v])"

definition obtener_valores_campo :: "Dataset \<Rightarrow> string \<Rightarrow> string list" where
  "obtener_valores_campo self nombre_campo =
     obtener_valores_campo_loop nombre_campo (registros self) []"

text \<open>
  \<open>list(set(valores))\<close>: each value once.  Python leaves the order of a set open; the model
  lists the values in the order of their last occurrence, and no theorem below depends on
  that order.
\<close>

definition obtener_valores_unicos :: "Dataset \<Rightarrow> string \<Rightarrow> string list" where
  "obtener_valores_unicos self nombre_campo = remdups (obtener_valores_campo self nombre_campo)"


section \<open>persistencia/registro_operaciones.py\<close>

record Operacion =
  op_timestamp :: string
  op_dataset :: string
  op_operacion :: string
  op_parametros :: "(string \<times> string) list"
  op_resultado :: string

text \<open>The constructor reads the clock; the time it reads is the argument \<open>ahora\<close>.\<close>

definition Operacion_init ::
  "string \<Rightarrow> string \<Rightarrow> string \<Rightarrow> (string \<times> string) list option \<Rightarrow> string \<Rightarrow> Operacion" where
  "Operacion_init ahora ds oper parametros resultado =
     \<lparr>op_timestamp = ahora, op_dataset = ds, op_operacion = oper,
      op_parametros = (case parametros of None \<Rightarrow> [] | Some [] \<Rightarrow> [] | Some ps \<Rightarrow> ps),
      op_resultado = resultado\<rparr>"

text \<open>
  The journal: the list in memory and the file \<open>operaciones.dat\<close>, which holds a pickled
  list when it exists and can be read.
\<close>

record RegistroOperaciones =
  operaciones :: "Operacion list"
  archivo :: "Operacion list option"

definition cargar_operaciones :: "Operacion list option \<Rightarrow> Operacion list" where
  "cargar_operaciones contenido = (case contenido of None \<Rightarrow> [] | Some ops \<Rightarrow> ops)"

definition RegistroOperaciones_init :: "Operacion list option \<Rightarrow> RegistroOperaciones" where
  "RegistroOperaciones_init contenido =
     \<lparr>operaciones = cargar_operaciones contenido, archivo = contenido\<rparr>"

text \<open>
  \<open>_guardar_operaciones\<close>: \<open>escribe\<close> tells whether the write succeeds; a write that fails
  is reported and leaves the list in memory as it is.
\<close>

definition guardar_operaciones :: "bool \<Rightarrow> RegistroOperaciones \<Rightarrow> RegistroOperaciones \<times> bool" where
  "guardar_operaciones escribe self =
     (if escribe then (self\<lparr>archivo := Some (operaciones self)\<rparr>, True) else (self, False))"

definition registrar_operacion ::
  "string \<Rightarrow> bool \<Rightarrow> RegistroOperaciones \<Rightarrow> string \<Rightarrow> string \<Rightarrow> (string \<times> string) list option \<Rightarrow>
   string \<Rightarrow> RegistroOperaciones" where
  "registrar_operacion ahora escribe self ds oper parametros resultado =
     (let nueva_operacion = Operacion_init ahora ds oper parametros resultado;
          self1 = self\<lparr>operaciones := operaciones self @ [nueva_operacion]\<rparr>
      in fst (guardar_operaciones escribe self1))"

definition obtener_todas_operaciones :: "RegistroOperaciones \<Rightarrow> Operacion list" where
  "obtener_todas_operaciones self = operaciones self"

definition obtener_ultimas_n_operaciones :: "RegistroOperaciones \<Rightarrow> int \<Rightarrow> Operacion list" where
  "obtener_ultimas_n_operaciones self n =
     (if int (length (operaciones self)) \<ge> n then py_slice_from (- n) (operaciones self)
      else operaciones self)"

definition contar_operaciones :: "RegistroOperaciones \<Rightarrow> nat" where
  "contar_operaciones self = length (operaciones self)"

definition limpiar_historial :: "bool \<Rightarrow> RegistroOperaciones \<Rightarrow> RegistroOperaciones \<times> bool" where
  "limpiar_historial escribe self = guardar_operaciones escribe (self\<lparr>operaciones := []\<rparr>)"


section \<open>procesadores/limpiador.py\<close>

text \<open>\<open>registro in registros_unicos\<close>: some element of the list is equal to the record.\<close>

definition py_in :: "registro \<Rightarrow> registro list \<Rightarrow> bool" where
  "py_in r rs = list_ex (\<lambda>e. registro_eq e r) rs"

fun eliminar_duplicados_loop :: "registro list \<Rightarrow> registro list \<Rightarrow> nat \<Rightarrow> registro list \<times> nat" where
  "eliminar_duplicados_loop [] registros_unicos duplicados = (registros_unicos, duplicados)"
| "eliminar_duplicados_loop (r # rs) registros_unicos duplicados =
     (if \<not> py_in r registros_unicos
      then eliminar_duplicados_loop rs (registros_unicos @ [r]) duplicados
      else eliminar_duplicados_loop rs registros_unicos (duplicados + 1))"

text \<open>\<open>eliminar_duplicados\<close> returns the dataset as the call leaves it and the number it reports.\<close>

definition eliminar_duplicados :: "Dataset \<Rightarrow> Dataset \<times> nat" where
  "eliminar_duplicados self =
     (case eliminar_duplicados_loop (obtener_registros self) [] 0 of
        (registros_unicos, duplicados) \<Rightarrow>
          (agregar_registros (limpiar self) registros_unicos, duplicados))"


section \<open>procesadores/transformador.py\<close>

definition filtrar_por_campo :: "Dataset \<Rightarrow> string \<Rightarrow> valor \<Rightarrow> Dataset" where
  "filtrar_por_campo self nombre_campo v =
     snd (filtrar self (\<lambda>registro. obtener_campo registro nombre_campo = v))"

text \<open>
  The condition of \<open>filtrar_por_rango_numerico\<close>: a null value gives \<open>False\<close>, the
  \<open>ValueError\<close> of \<open>float\<close> is caught and gives \<open>False\<close>.
\<close>

definition condicion_rango :: "'n::ord pylib \<Rightarrow> string \<Rightarrow> 'n \<Rightarrow> 'n \<Rightarrow> registro \<Rightarrow> bool" where
  "condicion_rango L nombre_campo minimo maximo registro =
     (case obtener_campo registro nombre_campo of
        None \<Rightarrow> False
      | Some v \<Rightarrow> (case py_float L v of
                    Some valor_num \<Rightarrow> minimo \<le> valor_num \<and> valor_num \<le> maximo
                  | None \<Rightarrow> False))"

definition filtrar_por_rango_numerico :: "'n::ord pylib \<Rightarrow> Dataset \<Rightarrow> string \<Rightarrow> 'n \<Rightarrow> 'n \<Rightarrow> Dataset" where
  "filtrar_por_rango_numerico L self nombre_campo minimo maximo =
     snd (filtrar self (condicion_rango L nombre_campo minimo maximo))"

text \<open>A dict built by assignments \<open>d[k] = v\<close> is an association list in insertion order.\<close>

definition agrupar_por_campo :: "Dataset \<Rightarrow> string \<Rightarrow> (string \<times> Dataset) list" where
  "agrupar_por_campo self nombre_campo =
     foldl (\<lambda>grupos v. AList.update v (filtrar_por_campo self nombre_campo (Some v)) grupos)
       [] (obtener_valores_unicos self nombre_campo)"

definition sumar_campo :: "'n::plus pylib \<Rightarrow> string \<Rightarrow> 'n \<Rightarrow> registro \<Rightarrow> 'n" where
  "sumar_campo L campo_suma tot registro =
     (case obtener_campo registro campo_suma of
        None \<Rightarrow> tot
      | Some valor_campo \<Rightarrow> (case py_float L valor_campo of
                              Some x \<Rightarrow> tot + x
                            | None \<Rightarrow> tot))"

definition calcular_totales_por_grupo ::
  "'n::{zero,plus} pylib \<Rightarrow> Dataset \<Rightarrow> string \<Rightarrow> string \<Rightarrow> (string \<times> 'n) list" where
  "calcular_totales_por_grupo L self campo_agrupacion campo_suma =
     foldl (\<lambda>totales (v, dataset_grupo).
              AList.update v
                (py_round2 L (foldl (sumar_campo L campo_suma) 0 (obtener_registros dataset_grupo)))
                totales)
       [] (agrupar_por_campo self campo_agrupacion)"


section \<open>analizadores/analizador\_ventas.py\<close>

definition calcular_ventas_totales :: "'n::{zero,plus} pylib \<Rightarrow> Dataset \<Rightarrow> 'n" where
  "calcular_ventas_totales L self =
     py_round2 L
       (foldl (\<lambda>tot registro.
                 (case obtener_campo registro ''total'' of
                    Some valor_total \<Rightarrow>
                      (if truthy (Some valor_total)
                       then (case py_float L valor_total of Some x \<Rightarrow> tot + x | None \<Rightarrow> tot)
                       else tot)
                  | None \<Rightarrow> tot))
          0 (obtener_registros self))"

text \<open>
  One round of the loop of \<open>_analizar_por_campo\<close>.  The statement
  \<open>agrupacion[str(clave)] += float(valor)\<close> on a \<open>defaultdict(float)\<close> reads
  \<open>agrupacion[str(clave)]\<close> first, which inserts the key with \<open>0.0\<close> when it is missing, then
  evaluates \<open>float(valor)\<close>, and stores the sum only if that did not raise.
\<close>

definition analizar_por_campo_paso ::
  "'n::{zero,plus} pylib \<Rightarrow> string \<Rightarrow> string \<Rightarrow> (string \<times> 'n) list \<Rightarrow> registro \<Rightarrow> (string \<times> 'n) list" where
  "analizar_por_campo_paso L campo_agrupacion campo_suma agrupacion registro =
     (let clave = obtener_campo registro campo_agrupacion;
          valor = obtener_campo registro campo_suma
      in if truthy clave \<and> truthy valor then
           (case (clave, valor) of
              (Some k, Some v) \<Rightarrow>
                (let leida = (case map_of agrupacion k of
                                None \<Rightarrow> (AList.update k 0 agrupacion, 0)
                              | Some actual \<Rightarrow> (agrupacion, actual))
                 in case py_float L v of
                      Some x \<Rightarrow> AList.update k (snd leida + x) (fst leida)
                    | None \<Rightarrow> fst leida)
            | _ \<Rightarrow> agrupacion)
         else agrupacion)"

definition analizar_por_campo ::
  "'n::{zero,plus} pylib \<Rightarrow> Dataset \<Rightarrow> string \<Rightarrow> string \<Rightarrow> (string \<times> 'n) list" where
  "analizar_por_campo L self campo_agrupacion campo_suma =
     map (\<lambda>(k, v). (k, py_round2 L v))
       (foldl (analizar_por_campo_paso L campo_agrupacion campo_suma) [] (obtener_registros self))"

text \<open>\<open>xs[:n]\<close> for a list and an integer \<open>n\<close>.\<close>

definition py_slice_to :: "int \<Rightarrow> 'a list \<Rightarrow> 'a list" where
  "py_slice_to n xs =
     (let len = int (length xs);
          stop = (if n < 0 then max (len + n) 0 else min n len)
      in take (nat stop) xs)"

definition obtener_top_n ::
  "'n::{zero,plus,linorder} pylib \<Rightarrow> Dataset \<Rightarrow> string \<Rightarrow> string \<Rightarrow> int \<Rightarrow> (string \<times> 'n) list" where
  "obtener_top_n L self campo_agrupacion campo_suma n =
     (let agrupacion = analizar_por_campo L self campo_agrupacion campo_suma;
          ordenados = py_sort snd True agrupacion
      in py_slice_to n ordenados)"

record 'n resultados_ventas =
  v_total_registros :: nat
  ventas_totales :: 'n
  por_region :: "(string \<times> 'n) list"
  por_producto :: "(string \<times> 'n) list"
  por_categoria :: "(string \<times> 'n) list"
  por_vendedor :: "(string \<times> 'n) list"
  top_productos :: "(string \<times> 'n) list"
  top_vendedores :: "(string \<times> 'n) list"

text \<open>\<open>AnalizadorVentas.analizar\<close>; the result is also kept in \<open>self._resultados\<close>.\<close>

definition AnalizadorVentas_analizar ::
  "'n::{zero,plus,linorder} pylib \<Rightarrow> Dataset \<Rightarrow> 'n resultados_ventas" where
  "AnalizadorVentas_analizar L self =
     (let resultados = \<lparr>v_total_registros = cantidad_registros self, ventas_totales = 0,
                         por_region = [], por_producto = [], por_categoria = [],
                         por_vendedor = [], top_productos = [], top_vendedores = []\<rparr>
      in if esta_vacio self then resultados
         else resultados
           \<lparr>ventas_totales := calcular_ventas_totales L self,
            por_region := analizar_por_campo L self ''region'' ''total'',
            por_producto := analizar_por_campo L self ''producto'' ''total'',
            por_categoria := analizar_por_campo L self ''categoria'' ''total'',
            por_vendedor := analizar_por_campo L self ''vendedor'' ''total'',
            top_productos := obtener_top_n L self ''producto'' ''total'' 5,
            top_vendedores := obtener_top_n L self ''vendedor'' ''total'' 5\<rparr>)"


section \<open>analizadores/analizador\_estadistico.py\<close>

text \<open>
  Counting in a dict, \<open>d[x] = d.get(x, 0) + 1\<close> for each \<open>x\<close> in turn: a new key goes to the
  end, a known key keeps its place.  The keys here are strings.
\<close>

fun contar :: "'a list \<Rightarrow> ('a \<times> nat) list \<Rightarrow> ('a \<times> nat) list" where
  "contar [] frecuencias = frecuencias"
| "contar (x # xs) frecuencias =
     contar xs (AList.update x ((case map_of frecuencias x of None \<Rightarrow> 0 | Some c \<Rightarrow> c) + 1) frecuencias)"

text \<open>
  \<open>max(xs, key=f)\<close>: the first element whose key no other element exceeds; \<open>None\<close> stands
  for the \<open>ValueError\<close> of an empty argument.
\<close>

fun py_max_key_loop :: "('a \<Rightarrow> 'k::linorder) \<Rightarrow> 'a list \<Rightarrow> 'a \<Rightarrow> 'a" where
  "py_max_key_loop f [] mejor = mejor"
| "py_max_key_loop f (x # xs) mejor = py_max_key_loop f xs (if f mejor < f x then x else mejor)"

definition py_max_key :: "('a \<Rightarrow> 'k::linorder) \<Rightarrow> 'a list \<Rightarrow> 'a option" where
  "py_max_key f xs = (case xs of [] \<Rightarrow> None | x # rest \<Rightarrow> Some (py_max_key_loop f rest x))"

text \<open>
  \<open>collections.Counter\<close> counts in the same way, \<open>self[elem] = self.get(elem, 0) + 1\<close>,
  with floats as keys.  A dict takes an element for a key it holds when the two are the
  same object or are equal by \<open>==\<close>.  The elements counted here are the floats made by
  \<open>float(valor)\<close>, a new object for each value, so an element is counted under a key exactly
  when \<open>==\<close> holds between the key and the element, and becomes a new key otherwise: every
  nan is a key of its own.  The key stays the element that was counted first.
\<close>

fun incrementar :: "('a \<Rightarrow> 'a \<Rightarrow> bool) \<Rightarrow> 'a \<Rightarrow> ('a \<times> nat) list \<Rightarrow> ('a \<times> nat) list" where
  "incrementar eq x [] = [(x, 1)]"
| "incrementar eq x (p # ps) =
     (if eq (fst p) x then (fst p, snd p + 1) # ps else p # incrementar eq x ps)"

fun py_counter :: "('a \<Rightarrow> 'a \<Rightarrow> bool) \<Rightarrow> 'a list \<Rightarrow> ('a \<times> nat) list \<Rightarrow> ('a \<times> nat) list" where
  "py_counter eq [] c = c"
| "py_counter eq (x # xs) c = py_counter eq xs (incrementar eq x c)"

text \<open>
  \<open>statistics.mode\<close> as it is since Python 3.8:
  \<^verbatim>\<open>pairs = Counter(iter(data)).most_common(1)\<close>, then \<^verbatim>\<open>return pairs[0][0]\<close>, and
  \<open>StatisticsError\<close> for empty data only.  \<open>most_common(1)\<close> is \<open>max\<close> over the items of the
  counter with the count as key, hence the first key counted among those counted most
  often.
\<close>

definition statistics_mode :: "('a \<Rightarrow> 'a \<Rightarrow> bool) \<Rightarrow> 'a list \<Rightarrow> py_error + 'a" where
  "statistics_mode eq datos =
     (case py_max_key snd (py_counter eq datos []) of
        None \<Rightarrow> Inl StatisticsError
      | Some par \<Rightarrow> Inr (fst par))"

record 'n est_numerico =
  num_total_valores :: nat
  suma :: 'n
  promedio :: 'n
  mediana :: 'n
  minimo :: 'n
  maximo :: 'n
  desviacion_estandar :: "'n option"
  varianza :: "'n option"
  moda :: "'n option"

record est_categorico =
  cat_total_valores :: nat
  valores_unicos :: nat
  valor_mas_comun :: "string option"
  frecuencia_mas_comun :: nat
  distribucion :: "(string \<times> nat) list"

datatype 'n estadisticas = Numerico "'n est_numerico" | Categorico est_categorico

text \<open>
  \<open>_estadisticas_numericas\<close>.  The values of the dict are computed in the order of the
  source, and the first call that raises ends the function with its exception; only the
  \<open>StatisticsError\<close> of \<open>statistics.mode\<close> is caught, and gives the mode \<open>None\<close>.  The keys
  \<open>desviacion_estandar\<close> and \<open>varianza\<close> are absent (\<open>None\<close>) for a single value.
\<close>

definition estadisticas_numericas :: "'n pylib \<Rightarrow> 'n list \<Rightarrow> py_error + 'n est_numerico" where
  "estadisticas_numericas L valores =
     entonces (py_mean L valores) (\<lambda>mean.
     entonces (py_median L valores) (\<lambda>median.
     entonces (py_min L valores) (\<lambda>mn.
     entonces (py_max L valores) (\<lambda>mx.
     entonces (if length valores > 1
               then entonces (py_stdev L valores) (\<lambda>sd. Inr (Some (py_round2 L sd)))
               else Inr None) (\<lambda>desviacion.
     entonces (if length valores > 1
               then entonces (py_variance L valores) (\<lambda>var. Inr (Some (py_round2 L var)))
               else Inr None) (\<lambda>vari.
     entonces (case statistics_mode (py_eq L) valores of
                 Inr m \<Rightarrow> Inr (Some (py_round2 L m))
               | Inl e \<Rightarrow> if e = StatisticsError then Inr None else Inl e) (\<lambda>mo.
     Inr \<lparr>num_total_valores = length valores,
          suma = py_round2 L (py_sum L valores),
          promedio = py_round2 L mean,
          mediana = py_round2 L median,
          minimo = py_round2 L mn,
          maximo = py_round2 L mx,
          desviacion_estandar = desviacion,
          varianza = vari,
          moda = mo\<rparr>)))))))"

text \<open>
  \<open>_estadisticas_categoricas\<close>.  The values are strings, so \<open>str(valor)\<close> is the value.
  \<open>frecuencias.get\<close> is the key of \<open>max\<close>; the frequency reported is looked up only
  \<open>if valor_mas_comun\<close>, Python's truth test of the string.
\<close>

definition estadisticas_categoricas :: "string list \<Rightarrow> est_categorico" where
  "estadisticas_categoricas valores =
     (let frecuencias = contar valores [];
          mas_comun = (if frecuencias \<noteq> []
                       then py_max_key (\<lambda>k. map_of frecuencias k) (map fst frecuencias)
                       else None)
      in \<lparr>cat_total_valores = length valores,
          valores_unicos = length (remdups valores),
          valor_mas_comun = mas_comun,
          frecuencia_mas_comun =
            (if truthy mas_comun
             then (case mas_comun of
                     Some v \<Rightarrow> (case map_of frecuencias v of None \<Rightarrow> 0 | Some c \<Rightarrow> c)
                   | None \<Rightarrow> 0)
             else 0),
          distribucion = frecuencias\<rparr>)"

fun valores_numericos_loop :: "'n pylib \<Rightarrow> string list \<Rightarrow> 'n list \<Rightarrow> 'n list" where
  "valores_numericos_loop L [] valores_numericos = valores_numericos"
| "valores_numericos_loop L (v # vs) valores_numericos =
     valores_numericos_loop L vs
       (case py_float L v of Some x \<Rightarrow> valores_numericos @ [x] | None \<Rightarrow> valores_numericos)"

text \<open>
  \<open>_analizar_campo\<close>: \<open>None\<close> when the field has no value that is not null; an exception
  of the numeric statistics is not caught.
\<close>

definition analizar_campo ::
  "'n pylib \<Rightarrow> Dataset \<Rightarrow> string \<Rightarrow> py_error + 'n estadisticas option" where
  "analizar_campo L self nombre_campo =
     (let valores = obtener_valores_campo self nombre_campo
      in if valores = [] then Inr None
         else (let valores_numericos = valores_numericos_loop L valores []
               in if length valores_numericos \<ge> 2
                  then entonces (estadisticas_numericas L valores_numericos)
                         (\<lambda>e. Inr (Some (Numerico e)))
                  else Inr (Some (Categorico (estadisticas_categoricas valores)))))"

record 'n resultados_estadisticos =
  e_total_registros :: nat
  campos :: "(string \<times> 'n estadisticas) list"

text \<open>
  The loop of \<open>AnalizadorEstadistico.analizar\<close> over the fields: a field is entered when
  \<open>_analizar_campo\<close> returns statistics, and an exception ends the loop and the analysis.
\<close>

fun analizar_campos_loop ::
  "'n pylib \<Rightarrow> Dataset \<Rightarrow> string list \<Rightarrow> (string \<times> 'n estadisticas) list \<Rightarrow>
   py_error + (string \<times> 'n estadisticas) list" where
  "analizar_campos_loop L self [] cs = Inr cs"
| "analizar_campos_loop L self (campo # resto) cs =
     (case analizar_campo L self campo of
        Inl e \<Rightarrow> Inl e
      | Inr None \<Rightarrow> analizar_campos_loop L self resto cs
      | Inr (Some estadisticas) \<Rightarrow>
          analizar_campos_loop L self resto (AList.update campo estadisticas cs))"

text \<open>
  \<open>AnalizadorEstadistico.analizar\<close>.  The result has a third key, \<open>resumen_general\<close>, which
  stays an empty dict; the result is also kept in \<open>self._resultados\<close>.
\<close>

definition AnalizadorEstadistico_analizar ::
  "'n pylib \<Rightarrow> Dataset \<Rightarrow> py_error + 'n resultados_estadisticos" where
  "AnalizadorEstadistico_analizar L self =
     (let resultados = \<lparr>e_total_registros = cantidad_registros self, campos = []\<rparr>
      in if esta_vacio self then Inr resultados
         else entonces (analizar_campos_loop L self (obtener_campos self) [])
                (\<lambda>cs. Inr (resultados\<lparr>campos := cs\<rparr>)))"


section \<open>A decimal instance of the library\<close>

text \<open>
  For the examples the numbers are real numbers and the library is exact decimal
  arithmetic.  \<open>float_decimal\<close> reads the plain decimal numerals among the strings that
  \<open>float\<close> accepts (an optional sign, digits, at most one point, at least one digit), and
  is used below only on such strings and on strings that \<open>float\<close> rejects as well;
  \<open>round2_decimal\<close> rounds to two decimals, a tie going to the even neighbour.  Real numbers
  have no nan and do not overflow: the functions on lists raise on data that are too short
  only, and \<open>==\<close> is equality.
\<close>

definition digito :: "char \<Rightarrow> nat option" where
  "digito c = map_of (zip ''0123456789'' [0, 1, 2, 3, 4, 5, 6, 7, 8, 9]) c"

fun digitos :: "string \<Rightarrow> nat \<Rightarrow> nat option" where
  "digitos [] a = Some a"
| "digitos (c # cs) a = (case digito c of None \<Rightarrow> None | Some d \<Rightarrow> digitos cs (10 * a + d))"

definition float_decimal :: "string \<Rightarrow> real option" where
  "float_decimal s =
     (let signo_cuerpo = (case s of
                            [] \<Rightarrow> (1, s)
                          | c # cs \<Rightarrow> if c = CHR ''-'' then (- 1, cs)
                                      else if c = CHR ''+'' then (1, cs) else (1, s));
          cuerpo = snd signo_cuerpo;
          entera = takeWhile (\<lambda>c. c \<noteq> CHR ''.'') cuerpo;
          fraccion = (case dropWhile (\<lambda>c. c \<noteq> CHR ''.'') cuerpo of [] \<Rightarrow> [] | _ # f \<Rightarrow> f)
      in if entera = [] \<and> fraccion = [] then None
         else (case (digitos entera 0, digitos fraccion 0) of
                 (Some e, Some f) \<Rightarrow>
                   Some (fst signo_cuerpo * (real e + real f / 10 ^ length fraccion))
               | _ \<Rightarrow> None))"

definition round2_decimal :: "real \<Rightarrow> real" where
  "round2_decimal x =
     (let y = x * 100; f = \<lfloor>y\<rfloor>; d = y - of_int f
      in (if d < 1 / 2 then of_int f
          else if 1 / 2 < d then of_int (f + 1)
          else if even f then of_int f else of_int (f + 1)) / 100)"

definition mean_decimal :: "real list \<Rightarrow> py_error + real" where
  "mean_decimal xs =
     (if xs = [] then Inl StatisticsError else Inr (foldl (+) 0 xs / real (length xs)))"

definition median_decimal :: "real list \<Rightarrow> py_error + real" where
  "median_decimal xs =
     (let s = sort xs; n = length xs
      in if n = 0 then Inl StatisticsError
         else if odd n then Inr (s ! (n div 2))
         else Inr ((s ! (n div 2 - 1) + s ! (n div 2)) / 2))"

definition varianza_muestral :: "real list \<Rightarrow> real" where
  "varianza_muestral xs =
     (let m = foldl (+) 0 xs / real (length xs)
      in foldl (+) 0 (map (\<lambda>x. (x - m) ^ 2) xs) / real (length xs - 1))"

definition variance_decimal :: "real list \<Rightarrow> py_error + real" where
  "variance_decimal xs =
     (if length xs < 2 then Inl StatisticsError else Inr (varianza_muestral xs))"

definition stdev_decimal :: "real list \<Rightarrow> py_error + real" where
  "stdev_decimal xs =
     (if length xs < 2 then Inl StatisticsError else Inr (sqrt (varianza_muestral xs)))"

definition min_decimal :: "real list \<Rightarrow> py_error + real" where
  "min_decimal xs = (case xs of [] \<Rightarrow> Inl ValueError | x # resto \<Rightarrow> Inr (foldl min x resto))"

definition max_decimal :: "real list \<Rightarrow> py_error + real" where
  "max_decimal xs = (case xs of [] \<Rightarrow> Inl ValueError | x # resto \<Rightarrow> Inr (foldl max x resto))"

definition decimal_lib :: "real pylib" where
  "decimal_lib =
     \<lparr>py_float = float_decimal, py_round2 = round2_decimal, py_eq = (=),
      py_sum = foldl (+) 0,
      py_min = min_decimal, py_max = max_decimal,
      py_mean = mean_decimal, py_median = median_decimal,
      py_stdev = stdev_decimal, py_variance = variance_decimal\<rparr>"


section \<open>Reference definitions for the properties\<close>

text \<open>
  The sum of a field done by hand: the values of the field \<open>campo\<close> that are not null and
  that \<open>float\<close> accepts, in the order of the records, and their sum from zero over the
  records whose field \<open>f\<close> has the value \<open>v\<close>.
\<close>

definition valores_coercibles :: "'n pylib \<Rightarrow> string \<Rightarrow> registro list \<Rightarrow> 'n list" where
  "valores_coercibles L campo rs =
     List.map_filter (\<lambda>r. case obtener_campo r campo of None \<Rightarrow> None | Some v \<Rightarrow> py_float L v) rs"

definition suma_manual :: "'n::{zero,plus} pylib \<Rightarrow> Dataset \<Rightarrow> string \<Rightarrow> string \<Rightarrow> string \<Rightarrow> 'n" where
  "suma_manual L D f s v =
     foldl (+) 0 (valores_coercibles L s (filter (\<lambda>r. obtener_campo r f = Some v) (registros D)))"

text \<open>
  The group values that pass the test \<open>if clave and valor\<close> of \<open>_analizar_por_campo\<close> in
  some record: the value of the grouping field is not empty, and the record's value of the
  summed field is neither null nor empty.
\<close>

definition grupos_con_total :: "Dataset \<Rightarrow> string \<Rightarrow> string \<Rightarrow> string set" where
  "grupos_con_total D g s =
     {k. k \<noteq> [] \<and> (\<exists>r \<in> set (registros D). obtener_campo r g = Some k \<and> truthy (obtener_campo r s))}"

text \<open>
  The values of a field that \<open>float\<close> accepts, as numbers, and the condition that none of
  the library calls of \<open>_estadisticas_numericas\<close> raises on a list of numbers.
\<close>

definition columna_numerica :: "'n pylib \<Rightarrow> Dataset \<Rightarrow> string \<Rightarrow> 'n list" where
  "columna_numerica L D f = List.map_filter (py_float L) (obtener_valores_campo D f)"

definition estadisticas_sin_error :: "'n pylib \<Rightarrow> 'n list \<Rightarrow> bool" where
  "estadisticas_sin_error L xs =
     (\<not> isl (py_mean L xs) \<and> \<not> isl (py_median L xs) \<and> \<not> isl (py_min L xs) \<and> \<not> isl (py_max L xs)
      \<and> (1 < length xs \<longrightarrow> \<not> isl (py_stdev L xs) \<and> \<not> isl (py_variance L xs)))"

text \<open>The dataset of scenario A: totals 10, 20, 30 in the regions A, B, A.\<close>

definition ventas_ejemplo :: Dataset where
  "ventas_ejemplo =
     \<lparr>nombre = ''ventas'',
      registros = [[(''total'', Some ''10''), (''region'', Some ''A'')],
                   [(''total'', Some ''20''), (''region'', Some ''B'')],
                   [(''total'', Some ''30''), (''region'', Some ''A'')]]\<rparr>"


section \<open>Dataset.filtrar\<close>

lemma registros_agregar_registro: "registros (agregar_registro d r) = registros d @ [r]"
  by (simp add: agregar_registro_def)

lemma nombre_agregar_registro: "nombre (agregar_registro d r) = nombre d"
  by (simp add: agregar_registro_def)

lemma registros_filtrar_loop:
  "registros (filtrar_loop c rs acc) = registros acc @ filter c rs"
  by (induction rs arbitrary: acc) (simp_all add: registros_agregar_registro)

lemma nombre_filtrar_loop: "nombre (filtrar_loop c rs acc) = nombre acc"
  by (induction rs arbitrary: acc) (simp_all add: nombre_agregar_registro)

lemma registros_filtrar: "registros (snd (filtrar d c)) = filter c (registros d)"
  by (simp add: filtrar_def registros_filtrar_loop Dataset_init_def)

text \<open>
  C5.  \<open>D.filtrar(P)\<close> returns a new dataset that holds exactly the records of \<open>D\<close>
  satisfying \<open>P\<close>, in their original order (it is the sublist \<open>filter P\<close> of the records
  of \<open>D\<close>); its number of records is the number of records of \<open>D\<close> that satisfy \<open>P\<close>; and
  \<open>D\<close> itself is as it was before the call.  The new dataset has the name of \<open>D\<close> with
  the suffix \<open>_filtrado\<close>.
\<close>

theorem filtrar_correct:
  "registros (snd (filtrar D P)) = filter P (registros D)
   \<and> cantidad_registros (snd (filtrar D P)) = length (filter P (registros D))
   \<and> set (registros (snd (filtrar D P))) = {r \<in> set (registros D). P r}
   \<and> nombre (snd (filtrar D P)) = nombre D @ ''_filtrado''
   \<and> fst (filtrar D P) = D"
proof (intro conjI)
  show "registros (snd (filtrar D P)) = filter P (registros D)"
    by (rule registros_filtrar)
  then show "cantidad_registros (snd (filtrar D P)) = length (filter P (registros D))"
    by (simp add: cantidad_registros_def)
  show "set (registros (snd (filtrar D P))) = {r \<in> set (registros D). P r}"
    by (simp add: registros_filtrar)
  show "nombre (snd (filtrar D P)) = nombre D @ ''_filtrado''"
    by (simp add: filtrar_def nombre_filtrar_loop Dataset_init_def)
  show "fst (filtrar D P) = D"
    by (simp add: filtrar_def)
qed


section \<open>RegistroOperaciones.obtener\_ultimas\_n\_operaciones\<close>

lemma py_slice_from_neg:
  "0 < n \<Longrightarrow> n \<le> int (length xs) \<Longrightarrow> py_slice_from (- n) xs = drop (length xs - nat n) xs"
  by (auto simp: py_slice_from_def Let_def max_def nat_diff_distrib')

lemma ultimas_n_drop:
  assumes "1 \<le> n"
  shows "obtener_ultimas_n_operaciones J n =
           drop (length (operaciones J) - min (nat n) (length (operaciones J))) (operaciones J)"
proof (cases "n \<le> int (length (operaciones J))")
  case True
  then have m: "min (nat n) (length (operaciones J)) = nat n"
    using assms by linarith
  from True assms show ?thesis
    unfolding m by (simp add: obtener_ultimas_n_operaciones_def py_slice_from_neg)
next
  case False
  then have m: "min (nat n) (length (operaciones J)) = length (operaciones J)"
    by linarith
  from False show ?thesis
    unfolding m by (simp add: obtener_ultimas_n_operaciones_def)
qed

lemma ultimas_1_tras_registrar:
  "obtener_ultimas_n_operaciones
     (registrar_operacion t2 w2 (registrar_operacion t1 w1 J d1 o1 p1 r1) d2 o2 p2 r2) 1
   = [Operacion_init t2 d2 o2 p2 r2]"
  by (simp add: obtener_ultimas_n_operaciones_def registrar_operacion_def guardar_operaciones_def
      py_slice_from_def Let_def)

text \<open>
  C9.  For a journal holding \<open>m\<close> entries and \<open>n \<ge> 1\<close>, \<open>obtener_ultimas_n_operaciones(n)\<close>
  returns the last \<open>min(n, m)\<close> entries in the order in which they were appended: the list
  without its first \<open>m - min(n, m)\<close> entries, of length \<open>min(n, m)\<close>.  In particular, after
  two operations are recorded for the dataset \<open>sales\<close> (on any journal, at any time, whether
  or not the writes succeed), \<open>obtener_ultimas_n_operaciones(1)\<close> is exactly the second.
\<close>

theorem ultimas_n_correct:
  assumes "1 \<le> n"
  shows "obtener_ultimas_n_operaciones J n =
           drop (length (operaciones J) - min (nat n) (length (operaciones J))) (operaciones J)
         \<and> length (obtener_ultimas_n_operaciones J n) = min (nat n) (length (operaciones J))
         \<and> obtener_ultimas_n_operaciones
             (registrar_operacion t2 w2 (registrar_operacion t1 w1 J0 ''sales'' o1 p1 r1)
                ''sales'' o2 p2 r2) 1
           = [Operacion_init t2 ''sales'' o2 p2 r2]"
  using ultimas_n_drop [OF assms, of J] ultimas_1_tras_registrar [of t2 w2 t1 w1 J0]
  by simp

theorem ultimas_n_witness:
  "(1::int) \<le> 1 \<and>
   obtener_ultimas_n_operaciones
     (registrar_operacion ''2026-01-01 10:00:01'' True
        (registrar_operacion ''2026-01-01 10:00:00'' True (RegistroOperaciones_init None)
           ''sales'' ''cargar'' None ''Exitoso'')
        ''sales'' ''limpiar'' None ''Exitoso'') 1
   = [Operacion_init ''2026-01-01 10:00:01'' ''sales'' ''limpiar'' None ''Exitoso'']"
  using ultimas_n_correct [of 1 "registrar_operacion ''2026-01-01 10:00:01'' True
        (registrar_operacion ''2026-01-01 10:00:00'' True (RegistroOperaciones_init None)
           ''sales'' ''cargar'' None ''Exitoso'')
        ''sales'' ''limpiar'' None ''Exitoso''"]
  by (simp add: registrar_operacion_def guardar_operaciones_def RegistroOperaciones_init_def
      cargar_operaciones_def Let_def)

text \<open>
  C10.  On a journal that is not empty, \<open>obtener_ultimas_n_operaciones(0)\<close> returns the
  whole list of recorded entries, which is not the empty list.
\<close>

theorem ultimas_0_todas:
  assumes "operaciones J \<noteq> []"
  shows "obtener_ultimas_n_operaciones J 0 = operaciones J
         \<and> obtener_ultimas_n_operaciones J 0 \<noteq> []"
  using assms by (simp add: obtener_ultimas_n_operaciones_def py_slice_from_def)

theorem ultimas_0_todas_witness:
  "operaciones (registrar_operacion ''2026-01-01 10:00:00'' True (RegistroOperaciones_init None)
                  ''sales'' ''cargar'' None ''Exitoso'') \<noteq> []
   \<and> obtener_ultimas_n_operaciones
        (registrar_operacion ''2026-01-01 10:00:00'' True (RegistroOperaciones_init None)
           ''sales'' ''cargar'' None ''Exitoso'') 0
     = [Operacion_init ''2026-01-01 10:00:00'' ''sales'' ''cargar'' None ''Exitoso'']"
  using ultimas_0_todas [of "registrar_operacion ''2026-01-01 10:00:00'' True
           (RegistroOperaciones_init None) ''sales'' ''cargar'' None ''Exitoso''"]
  by (simp add: registrar_operacion_def guardar_operaciones_def RegistroOperaciones_init_def
      cargar_operaciones_def Let_def)


section \<open>Transformador.filtrar\_por\_rango\_numerico\<close>

lemma condicion_rango_iff:
  "condicion_rango L f lo hi r \<longleftrightarrow>
     (\<exists>v x. obtener_campo r f = Some v \<and> py_float L v = Some x \<and> lo \<le> x \<and> x \<le> hi)"
  by (auto simp: condicion_rango_def split: option.splits)

text \<open>
  C8.  \<open>filtrar_por_rango_numerico(campo, minimo, maximo)\<close> returns a dataset (the function is
  total: no error escapes it) whose records are exactly the records of the dataset whose
  value of the field is not null, is accepted by \<open>float\<close> and, as a number, lies between
  \<open>minimo\<close> and \<open>maximo\<close>, both included; the records keep their order.  A record whose
  value is null, or is rejected by \<open>float\<close>, is not in the result.
\<close>

theorem filtrar_por_rango_numerico_correct:
  "registros (filtrar_por_rango_numerico L D f lo hi) =
     filter (\<lambda>r. \<exists>v x. obtener_campo r f = Some v \<and> py_float L v = Some x \<and> lo \<le> x \<and> x \<le> hi)
       (registros D)
   \<and> set (registros (filtrar_por_rango_numerico L D f lo hi)) \<inter>
       {r. obtener_campo r f = None \<or> (\<exists>v. obtener_campo r f = Some v \<and> py_float L v = None)} = {}"
proof -
  have "condicion_rango L f lo hi =
     (\<lambda>r. \<exists>v x. obtener_campo r f = Some v \<and> py_float L v = Some x \<and> lo \<le> x \<and> x \<le> hi)"
    by (rule ext) (rule condicion_rango_iff)
  then have "registros (filtrar_por_rango_numerico L D f lo hi) =
     filter (\<lambda>r. \<exists>v x. obtener_campo r f = Some v \<and> py_float L v = Some x \<and> lo \<le> x \<and> x \<le> hi)
       (registros D)"
    by (simp add: filtrar_por_rango_numerico_def registros_filtrar)
  then show ?thesis by auto
qed

text \<open>Scenario D: of the values 5, 15 and 25, only 15 lies in the range from 10 to 20.\<close>

lemma filtrar_por_rango_numerico_escenario:
  "registros (filtrar_por_rango_numerico decimal_lib
     \<lparr>nombre = ''d'', registros = [[(''x'', Some ''5'')], [(''x'', Some ''15'')], [(''x'', Some ''25'')]]\<rparr>
     ''x'' 10 20) = [[(''x'', Some ''15'')]]"
  by (simp add: filtrar_por_rango_numerico_def registros_filtrar condicion_rango_def
      obtener_campo_def decimal_lib_def float_decimal_def digito_def Let_def)


section \<open>Dataset.ordenar\<close>

lemma clave_orden_eq:
  "clave_orden campo r = (case obtener_campo r campo of None \<Rightarrow> [] | Some v \<Rightarrow> v)"
  by (simp add: clave_orden_def truthy_def split: option.splits)

lemma mset_py_sort: "mset (py_sort k b xs) = mset xs"
  by (simp add: py_sort_def)

lemma py_sort_stable: "filter (\<lambda>y. k y = c) (py_sort k b xs) = filter (\<lambda>y. k y = c) xs"
  by (simp add: py_sort_def sort_key_stable rev_filter [symmetric])

lemma sorted_py_sort: "sorted (map k (if b then rev (py_sort k b xs) else py_sort k b xs))"
  by (simp add: py_sort_def)

text \<open>
  C4.  \<open>ordenar(campo, reverso)\<close> reorders the records of the dataset in place: the same
  records, under the same name.  The key of a record is the value of the field, a null or
  missing value counting as the empty string.  Afterwards the keys ascend in the order of
  strings, or descend when \<open>reverso\<close> is true (the reversed list ascends); and the sort is
  stable: for each key, the records with that key are in the order they had before.
\<close>

theorem ordenar_correct:
  "mset (registros (ordenar D campo reverso)) = mset (registros D)
   \<and> nombre (ordenar D campo reverso) = nombre D
   \<and> sorted (map (clave_orden campo)
        (if reverso then rev (registros (ordenar D campo reverso))
         else registros (ordenar D campo reverso)))
   \<and> filter (\<lambda>r. clave_orden campo r = k) (registros (ordenar D campo reverso))
       = filter (\<lambda>r. clave_orden campo r = k) (registros D)
   \<and> clave_orden campo r = (case obtener_campo r campo of None \<Rightarrow> [] | Some v \<Rightarrow> v)"
proof (intro conjI)
  show "sorted (map (clave_orden campo)
        (if reverso then rev (registros (ordenar D campo reverso))
         else registros (ordenar D campo reverso)))"
    using sorted_py_sort [of "clave_orden campo" reverso "registros D"]
    by (cases reverso) (simp_all add: ordenar_def)
  show "filter (\<lambda>r. clave_orden campo r = k) (registros (ordenar D campo reverso))
       = filter (\<lambda>r. clave_orden campo r = k) (registros D)"
    by (simp add: ordenar_def py_sort_stable)
qed (simp_all add: ordenar_def mset_py_sort clave_orden_eq)

text \<open>
  An example: three records with the regions A, B, A.  Descending, the record of B comes
  first and the two records of A keep their order.
\<close>

lemma ordenar_ejemplo:
  "registros (ordenar
     \<lparr>nombre = ''d'',
      registros = [[(''total'', Some ''10''), (''region'', Some ''A'')],
                   [(''total'', Some ''20''), (''region'', Some ''B'')],
                   [(''total'', Some ''30''), (''region'', Some ''A'')]]\<rparr> ''region'' True)
   = [[(''total'', Some ''20''), (''region'', Some ''B'')],
      [(''total'', Some ''10''), (''region'', Some ''A'')],
      [(''total'', Some ''30''), (''region'', Some ''A'')]]"
  by (simp add: ordenar_def py_sort_def clave_orden_eq obtener_campo_def)


section \<open>Limpiador.eliminar\_duplicados\<close>

lemma registro_eq_refl: "registro_eq a a"
  by (simp add: registro_eq_def)

lemma registro_eq_sym: "registro_eq a b \<Longrightarrow> registro_eq b a"
  unfolding registro_eq_def by metis

lemma registro_eq_trans: "registro_eq a b \<Longrightarrow> registro_eq b c \<Longrightarrow> registro_eq a c"
  unfolding registro_eq_def by metis

lemma py_in_iff: "py_in r rs \<longleftrightarrow> (\<exists>e \<in> set rs. registro_eq e r)"
  by (simp add: py_in_def list_ex_iff)

lemma eliminar_duplicados_loop_snoc:
  "eliminar_duplicados_loop (rs @ [r]) u d =
     (case eliminar_duplicados_loop rs u d of
        (u', d') \<Rightarrow> if \<not> py_in r u' then (u' @ [r], d') else (u', d' + 1))"
  by (induction rs arbitrary: u d) simp_all

lemma filter_upt_snoc:
  "filter P [0..<Suc n] = filter P [0..<n] @ (if P n then [n] else [])"
  by simp

lemma eliminar_duplicados_loop_primeros:
  "fst (eliminar_duplicados_loop rs [] 0) =
     map (nth rs) (filter (\<lambda>i. \<forall>j<i. \<not> registro_eq (rs ! j) (rs ! i)) [0..<length rs])"
proof (induction rs rule: rev_induct)
  case Nil
  show ?case by simp
next
  case (snoc r rs)
  obtain u d where ud: "eliminar_duplicados_loop rs [] 0 = (u, d)"
    by (cases "eliminar_duplicados_loop rs [] 0")
  let ?P = "\<lambda>xs i. \<forall>j<i. \<not> registro_eq (xs ! j) (xs ! i)"
  have u: "u = map (nth rs) (filter (?P rs) [0..<length rs])"
    using snoc ud by simp
  have fil: "filter (?P (rs @ [r])) [0..<length rs] = filter (?P rs) [0..<length rs]"
    by (rule filter_cong) (auto simp: nth_append)
  have old: "map (nth (rs @ [r])) (filter (?P (rs @ [r])) [0..<length rs]) = u"
    unfolding u fil by (rule map_cong) (auto simp: nth_append)
  have inu: "py_in r u \<longleftrightarrow> (\<exists>j<length rs. registro_eq (rs ! j) r)"
  proof
    assume "py_in r u"
    then obtain e where "e \<in> set u" "registro_eq e r"
      by (auto simp: py_in_iff)
    then show "\<exists>j<length rs. registro_eq (rs ! j) r"
      unfolding u by auto
  next
    assume "\<exists>j<length rs. registro_eq (rs ! j) r"
    then obtain j where j: "j < length rs \<and> registro_eq (rs ! j) r" by blast
    define i where "i = (LEAST i. i < length rs \<and> registro_eq (rs ! i) r)"
    have i: "i < length rs \<and> registro_eq (rs ! i) r"
      unfolding i_def by (rule LeastI [of _ j]) (rule j)
    have least: "\<And>k. k < i \<Longrightarrow> \<not> (k < length rs \<and> registro_eq (rs ! k) r)"
      unfolding i_def by (rule not_less_Least)
    have "?P rs i"
    proof (intro allI impI notI)
      fix k assume "k < i" "registro_eq (rs ! k) (rs ! i)"
      then have "k < length rs \<and> registro_eq (rs ! k) r"
        using i registro_eq_trans by (meson less_trans)
      with least [OF \<open>k < i\<close>] show False by blast
    qed
    with i have "rs ! i \<in> set u"
      unfolding u by auto
    with i show "py_in r u" by (auto simp: py_in_iff)
  qed
  have last: "?P (rs @ [r]) (length rs) \<longleftrightarrow> \<not> py_in r u"
    unfolding inu by (auto simp: nth_append)
  show ?case
    by (simp only: eliminar_duplicados_loop_snoc ud length_append_singleton filter_upt_snoc
          map_append old last split: prod.splits)
       (simp add: nth_append)
qed

lemma eliminar_duplicados_loop_cuenta:
  "eliminar_duplicados_loop rs u d = (u', d') \<Longrightarrow> length u' + d' = length u + d + length rs"
  by (induction rs arbitrary: u d) (auto split: if_splits)

lemma eliminar_duplicados_loop_sin_repetir:
  "eliminar_duplicados_loop rs [] 0 = (u, d) \<Longrightarrow> i < length u \<Longrightarrow> j < i \<Longrightarrow> \<not> registro_eq (u ! j) (u ! i)"
proof (induction rs arbitrary: u d i j rule: rev_induct)
  case Nil
  then show ?case by simp
next
  case (snoc r rs)
  obtain u0 d0 where ud: "eliminar_duplicados_loop rs [] 0 = (u0, d0)"
    by (cases "eliminar_duplicados_loop rs [] 0")
  show ?case
  proof (cases "py_in r u0")
    case True
    with snoc.prems ud have "u = u0"
      by (simp add: eliminar_duplicados_loop_snoc)
    with snoc.IH [OF ud] snoc.prems show ?thesis by simp
  next
    case False
    with snoc.prems ud have u: "u = u0 @ [r]"
      by (simp add: eliminar_duplicados_loop_snoc)
    show ?thesis
    proof (cases "i < length u0")
      case True
      with snoc.IH [OF ud True \<open>j < i\<close>] u \<open>j < i\<close> show ?thesis
        by (simp add: nth_append)
    next
      case False
      with snoc.prems u have "i = length u0" by simp
      with u \<open>j < i\<close> \<open>\<not> py_in r u0\<close> show ?thesis
        by (auto simp: nth_append py_in_iff)
    qed
  qed
qed

lemma eliminar_duplicados_loop_fijo:
  assumes "\<And>i j. i < length u \<Longrightarrow> j < i \<Longrightarrow> \<not> registro_eq (u ! j) (u ! i)"
  shows "eliminar_duplicados_loop u [] 0 = (u, 0)"
proof -
  have "filter (\<lambda>i. \<forall>j<i. \<not> registro_eq (u ! j) (u ! i)) [0..<length u] = [0..<length u]"
    using assms by (auto simp: filter_id_conv)
  then have f: "fst (eliminar_duplicados_loop u [] 0) = u"
    by (simp add: eliminar_duplicados_loop_primeros map_nth)
  obtain u' d' where ud: "eliminar_duplicados_loop u [] 0 = (u', d')"
    by (cases "eliminar_duplicados_loop u [] 0")
  from eliminar_duplicados_loop_cuenta [OF ud] f ud show ?thesis by simp
qed

lemma registros_agregar_registros: "registros (agregar_registros d rs) = registros d @ rs"
  unfolding agregar_registros_def
  by (induction rs arbitrary: d) (simp_all add: registros_agregar_registro)

lemma nombre_agregar_registros: "nombre (agregar_registros d rs) = nombre d"
  unfolding agregar_registros_def
  by (induction rs arbitrary: d) (simp_all add: nombre_agregar_registro)

lemma agregar_registros_eq: "agregar_registros (limpiar d) rs = d\<lparr>registros := rs\<rparr>"
  by (rule Dataset.equality)
     (simp_all add: registros_agregar_registros nombre_agregar_registros limpiar_def)

lemma eliminar_duplicados_eq:
  "eliminar_duplicados D =
     (D\<lparr>registros := fst (eliminar_duplicados_loop (registros D) [] 0)\<rparr>,
      snd (eliminar_duplicados_loop (registros D) [] 0))"
  by (simp add: eliminar_duplicados_def obtener_registros_def agregar_registros_eq split: prod.splits)

text \<open>
  C7.  \<open>eliminar_duplicados\<close> keeps the record at position \<open>i\<close> exactly when no record
  before it is equal to it, so it keeps the first record of every group of equal records
  and drops the later ones, in the original order and under the same name; the number it
  returns is the number of records dropped.  Called again on the dataset it has left, it
  returns 0 and leaves the dataset as it is.
\<close>

theorem eliminar_duplicados_correct:
  "registros (fst (eliminar_duplicados D)) =
     map (nth (registros D))
       (filter (\<lambda>i. \<forall>j<i. \<not> registro_eq (registros D ! j) (registros D ! i))
          [0..<length (registros D)])
   \<and> nombre (fst (eliminar_duplicados D)) = nombre D
   \<and> snd (eliminar_duplicados D) = length (registros D) - length (registros (fst (eliminar_duplicados D)))
   \<and> eliminar_duplicados (fst (eliminar_duplicados D)) = (fst (eliminar_duplicados D), 0)"
proof -
  obtain u d where ud: "eliminar_duplicados_loop (registros D) [] 0 = (u, d)"
    by (cases "eliminar_duplicados_loop (registros D) [] 0")
  have 1: "u = map (nth (registros D))
       (filter (\<lambda>i. \<forall>j<i. \<not> registro_eq (registros D ! j) (registros D ! i))
          [0..<length (registros D)])"
    using eliminar_duplicados_loop_primeros [of "registros D"] ud by simp
  have 2: "d = length (registros D) - length u"
    using eliminar_duplicados_loop_cuenta [OF ud] by simp
  have "eliminar_duplicados_loop u [] 0 = (u, 0)"
    by (rule eliminar_duplicados_loop_fijo) (rule eliminar_duplicados_loop_sin_repetir [OF ud])
  then have 3: "eliminar_duplicados (D\<lparr>registros := u\<rparr>) = (D\<lparr>registros := u\<rparr>, 0)"
    by (simp add: eliminar_duplicados_eq)
  show ?thesis
    using 1 2 3 by (simp add: eliminar_duplicados_eq ud)
qed

text \<open>Scenario B: two equal records among three; one is removed, two remain.\<close>

theorem eliminar_duplicados_witness:
  "eliminar_duplicados
     \<lparr>nombre = ''d'',
      registros = [[(''a'', Some ''1''), (''b'', None)], [(''b'', None), (''a'', Some ''1'')],
                   [(''a'', Some ''2''), (''b'', None)]]\<rparr>
   = (\<lparr>nombre = ''d'',
       registros = [[(''a'', Some ''1''), (''b'', None)], [(''a'', Some ''2''), (''b'', None)]]\<rparr>, 1)
   \<and> eliminar_duplicados
       \<lparr>nombre = ''d'',
        registros = [[(''a'', Some ''1''), (''b'', None)], [(''a'', Some ''2''), (''b'', None)]]\<rparr>
     = (\<lparr>nombre = ''d'',
         registros = [[(''a'', Some ''1''), (''b'', None)], [(''a'', Some ''2''), (''b'', None)]]\<rparr>, 0)"
proof -
  let ?D = "\<lparr>nombre = ''d'',
      registros = [[(''a'', Some ''1''), (''b'', None)], [(''b'', None), (''a'', Some ''1'')],
                   [(''a'', Some ''2''), (''b'', None)]]\<rparr>"
  have e: "eliminar_duplicados ?D = (\<lparr>nombre = ''d'',
       registros = [[(''a'', Some ''1''), (''b'', None)], [(''a'', Some ''2''), (''b'', None)]]\<rparr>, 1)"
    by (simp add: eliminar_duplicados_eq py_in_def registro_eq_def insert_commute)
  from eliminar_duplicados_correct [of ?D] show ?thesis
    unfolding e by simp
qed


section \<open>Transformador.calcular\_totales\_por\_grupo\<close>

lemma obtener_valores_campo_loop_eq:
  "obtener_valores_campo_loop f rs acc = acc @ List.map_filter (\<lambda>r. obtener_campo r f) rs"
  by (induction rs arbitrary: acc) (simp_all split: option.splits)

lemma set_obtener_valores_campo:
  "v \<in> set (obtener_valores_campo D f) \<longleftrightarrow> (\<exists>r \<in> set (registros D). obtener_campo r f = Some v)"
  by (force simp: obtener_valores_campo_def obtener_valores_campo_loop_eq map_filter_def image_iff)

lemma map_of_foldl_update_keys:
  "map_of (foldl (\<lambda>m v. AList.update v (F v) m) m0 vs) k =
     (if k \<in> set vs then Some (F k) else map_of m0 k)"
  by (induction vs arbitrary: m0) (simp_all add: update_conv')

lemma distinct_foldl_update_keys:
  "distinct (map fst m0) \<Longrightarrow> distinct (map fst (foldl (\<lambda>m v. AList.update v (F v) m) m0 vs))"
  by (induction vs arbitrary: m0) (simp_all add: distinct_update)

lemma map_of_agrupar_por_campo:
  "map_of (agrupar_por_campo D f) v =
     (if v \<in> set (obtener_valores_campo D f) then Some (filtrar_por_campo D f (Some v)) else None)"
  by (simp add: agrupar_por_campo_def map_of_foldl_update_keys obtener_valores_unicos_def)

lemma distinct_agrupar_por_campo: "distinct (map fst (agrupar_por_campo D f))"
  by (simp add: agrupar_por_campo_def distinct_foldl_update_keys)

lemma map_of_foldl_update_items:
  "distinct (map fst al) \<Longrightarrow>
   map_of (foldl (\<lambda>t (v, d). AList.update v (G d) t) t0 al) k =
     (case map_of al k of Some d \<Rightarrow> Some (G d) | None \<Rightarrow> map_of t0 k)"
proof (induction al arbitrary: t0)
  case Nil
  show ?case by simp
next
  case (Cons p al)
  obtain v d where p: "p = (v, d)" by (cases p)
  from Cons.prems p have notin: "map_of al v = None"
    by (simp add: map_of_eq_None_iff)
  from Cons.prems have "distinct (map fst al)" by simp
  from Cons.IH [OF this] notin show ?case
    by (simp add: p update_conv' split: option.splits)
qed

lemma map_of_calcular_totales_por_grupo:
  "map_of (calcular_totales_por_grupo L D g s) k =
     (if k \<in> set (obtener_valores_campo D g)
      then Some (py_round2 L (foldl (sumar_campo L s) 0
                   (filter (\<lambda>r. obtener_campo r g = Some k) (registros D))))
      else None)"
  by (simp add: calcular_totales_por_grupo_def map_of_foldl_update_items
      distinct_agrupar_por_campo map_of_agrupar_por_campo obtener_registros_def
      filtrar_por_campo_def registros_filtrar)

lemma foldl_sumar_campo:
  "foldl (sumar_campo L s) a rs = foldl (+) a (valores_coercibles L s rs)"
  by (induction rs arbitrary: a)
     (simp_all add: valores_coercibles_def sumar_campo_def split: option.splits)

lemma float_decimal_ej:
  "float_decimal ''10'' = Some 10" "float_decimal ''20'' = Some 20" "float_decimal ''30'' = Some 30"
  "round2_decimal 60 = 60" "round2_decimal 40 = 40" "round2_decimal 20 = 20" "round2_decimal 0 = 0"
  by (simp_all add: float_decimal_def digito_def round2_decimal_def Let_def)

lemma ventas_totales_ejemplo: "calcular_ventas_totales decimal_lib ventas_ejemplo = 60"
  by (simp add: calcular_ventas_totales_def ventas_ejemplo_def obtener_registros_def obtener_campo_def
        truthy_def decimal_lib_def float_decimal_ej)

lemma totales_por_grupo_ejemplo: "map_of (calcular_totales_por_grupo decimal_lib ventas_ejemplo ''region'' ''total'') k
    = [''A'' \<mapsto> 40, ''B'' \<mapsto> 20] k"
  by (simp add: map_of_calcular_totales_por_grupo set_obtener_valores_campo ventas_ejemplo_def obtener_campo_def
     sumar_campo_def decimal_lib_def float_decimal_ej)

text \<open>
  C6.  \<open>calcular_totales_por_grupo(f, s)\<close>, which sums over the groups of
  \<open>agrupar_por_campo(f)\<close>, has one entry for each value of \<open>f\<close> that is not null and occurs
  in the dataset, and no other entry; the group of a value holds the records with that value
  of \<open>f\<close>; and the entry of a value is the sum, rounded to 2 decimals, of the values of \<open>s\<close>
  that \<open>float\<close> accepts over the records with that value of \<open>f\<close>.  In scenario A the grand
  total is 60 and the totals by region are A: 40 and B: 20.
\<close>

theorem calcular_totales_por_grupo_correct:
  "map_of (calcular_totales_por_grupo L D f s) v =
     (if v \<in> set (obtener_valores_campo D f) then Some (py_round2 L (suma_manual L D f s v)) else None)
   \<and> (v \<in> set (obtener_valores_campo D f) \<longleftrightarrow> (\<exists>r \<in> set (registros D). obtener_campo r f = Some v))
   \<and> map_of (agrupar_por_campo D f) v =
       (if v \<in> set (obtener_valores_campo D f) then Some (filtrar_por_campo D f (Some v)) else None)
   \<and> registros (filtrar_por_campo D f (Some v)) = filter (\<lambda>r. obtener_campo r f = Some v) (registros D)
   \<and> calcular_ventas_totales decimal_lib ventas_ejemplo = 60
   \<and> map_of (calcular_totales_por_grupo decimal_lib ventas_ejemplo ''region'' ''total'')
       = [''A'' \<mapsto> 40, ''B'' \<mapsto> 20]"
proof -
  have "map_of (calcular_totales_por_grupo decimal_lib ventas_ejemplo ''region'' ''total'')
       = [''A'' \<mapsto> 40, ''B'' \<mapsto> 20]"
    by (rule ext) (rule totales_por_grupo_ejemplo)
  then show ?thesis
    by (auto simp add: map_of_calcular_totales_por_grupo foldl_sumar_campo suma_manual_def
        set_obtener_valores_campo map_of_agrupar_por_campo filtrar_por_campo_def registros_filtrar
        ventas_totales_ejemplo)
qed


section \<open>AnalizadorVentas.analizar and calcular\_totales\_por\_grupo\<close>

lemma map_of_analizar_por_campo_paso:
  "map_of (analizar_por_campo_paso L g s ag r) k =
     (if k \<noteq> [] \<and> obtener_campo r g = Some k \<and> truthy (obtener_campo r s)
      then Some (sumar_campo L s (case map_of ag k of None \<Rightarrow> 0 | Some a \<Rightarrow> a) r)
      else map_of ag k)"
  by (auto simp: analizar_por_campo_paso_def Let_def truthy_def sumar_campo_def update_conv'
      split: option.splits)

lemma map_of_foldl_analizar_por_campo_paso:
  "map_of (foldl (analizar_por_campo_paso L g s) ag rs) k =
     (if k \<noteq> [] \<and> filter (\<lambda>r. obtener_campo r g = Some k \<and> truthy (obtener_campo r s)) rs \<noteq> []
      then Some (foldl (sumar_campo L s) (case map_of ag k of None \<Rightarrow> 0 | Some a \<Rightarrow> a)
                   (filter (\<lambda>r. obtener_campo r g = Some k \<and> truthy (obtener_campo r s)) rs))
      else map_of ag k)"
proof (induction rs arbitrary: ag)
  case Nil
  show ?case by simp
next
  case (Cons r rs)
  show ?case
    by (simp add: Cons.IH map_of_analizar_por_campo_paso)
qed

lemma foldl_sumar_campo_truthy:
  assumes "py_float L [] = None"
  shows "foldl (sumar_campo L s) a (filter (\<lambda>r. P r \<and> truthy (obtener_campo r s)) rs) =
         foldl (sumar_campo L s) a (filter P rs)"
proof (induction rs arbitrary: a)
  case Nil
  show ?case by simp
next
  case (Cons r rs)
  have "\<not> truthy (obtener_campo r s) \<Longrightarrow> sumar_campo L s a r = a"
    using assms by (auto simp: truthy_def sumar_campo_def split: option.splits)
  then show ?case
    by (simp add: Cons.IH)
qed

lemma map_of_analizar_por_campo:
  assumes "py_float L [] = None"
  shows "map_of (analizar_por_campo L D g s) =
           map_of (calcular_totales_por_grupo L D g s) |` grupos_con_total D g s"
proof
  fix k
  let ?R = "filter (\<lambda>r. obtener_campo r g = Some k \<and> truthy (obtener_campo r s)) (registros D)"
  have in_g: "k \<in> grupos_con_total D g s \<longleftrightarrow> k \<noteq> [] \<and> ?R \<noteq> []"
    by (auto simp: grupos_con_total_def filter_empty_conv)
  have a: "map_of (analizar_por_campo L D g s) k =
        (if k \<noteq> [] \<and> ?R \<noteq> [] then Some (py_round2 L (foldl (sumar_campo L s) 0 ?R)) else None)"
    by (simp add: analizar_por_campo_def map_of_map obtener_registros_def
        map_of_foldl_analizar_por_campo_paso)
  have v: "?R \<noteq> [] \<Longrightarrow> k \<in> set (obtener_valores_campo D g)"
    by (auto simp: set_obtener_valores_campo filter_empty_conv)
  show "map_of (analizar_por_campo L D g s) k =
          (map_of (calcular_totales_por_grupo L D g s) |` grupos_con_total D g s) k"
    unfolding a
    using v by (simp add: restrict_map_def in_g map_of_calcular_totales_por_grupo
        foldl_sumar_campo_truthy [OF assms])
qed

lemma calcular_totales_por_grupo_vacio:
  "registros D = [] \<Longrightarrow> calcular_totales_por_grupo L D g s = []"
  by (simp add: calcular_totales_por_grupo_def agrupar_por_campo_def obtener_valores_unicos_def
      obtener_valores_campo_def)

text \<open>
  C2, as the code has it.  \<open>float\<close> rejects the empty string.  For each of the grouping
  fields region, producto, categoria and vendedor, the map of sums in the result of
  \<open>AnalizadorVentas.analizar\<close> is the map of \<open>calcular_totales_por_grupo\<close> for that field and
  the field total, restricted to the group values that are not empty and have a record
  whose total is neither null nor empty: on these the two sums are equal, and the analyzer
  has no other entry.
\<close>

theorem ventas_por_grupo_correct:
  fixes L :: "'n::{zero,plus,linorder} pylib"
  assumes "py_float L [] = None"
  shows "map_of (por_region (AnalizadorVentas_analizar L D)) =
           map_of (calcular_totales_por_grupo L D ''region'' ''total'') |` grupos_con_total D ''region'' ''total''
       \<and> map_of (por_producto (AnalizadorVentas_analizar L D)) =
           map_of (calcular_totales_por_grupo L D ''producto'' ''total'') |` grupos_con_total D ''producto'' ''total''
       \<and> map_of (por_categoria (AnalizadorVentas_analizar L D)) =
           map_of (calcular_totales_por_grupo L D ''categoria'' ''total'') |` grupos_con_total D ''categoria'' ''total''
       \<and> map_of (por_vendedor (AnalizadorVentas_analizar L D)) =
           map_of (calcular_totales_por_grupo L D ''vendedor'' ''total'') |` grupos_con_total D ''vendedor'' ''total''"
proof (cases "registros D = []")
  case True
  then show ?thesis
    by (simp add: AnalizadorVentas_analizar_def esta_vacio_def calcular_totales_por_grupo_vacio)
next
  case False
  then show ?thesis
    by (simp add: AnalizadorVentas_analizar_def esta_vacio_def Let_def
        map_of_analizar_por_campo [OF assms])
qed

theorem ventas_por_grupo_witness:
  "py_float decimal_lib [] = None
   \<and> map_of (por_region (AnalizadorVentas_analizar decimal_lib ventas_ejemplo)) ''A'' = Some 40
   \<and> map_of (calcular_totales_por_grupo decimal_lib ventas_ejemplo ''region'' ''total'') ''A'' = Some 40
   \<and> ''A'' \<in> grupos_con_total ventas_ejemplo ''region'' ''total''"
proof -
  have f: "py_float decimal_lib [] = None"
    by (simp add: decimal_lib_def float_decimal_def Let_def)
  have g: "''A'' \<in> grupos_con_total ventas_ejemplo ''region'' ''total''"
    by (simp add: grupos_con_total_def ventas_ejemplo_def obtener_campo_def truthy_def)
  have t: "map_of (calcular_totales_por_grupo decimal_lib ventas_ejemplo ''region'' ''total'') ''A'' = Some 40"
    by (simp add: totales_por_grupo_ejemplo)
  from ventas_por_grupo_correct [OF f, of ventas_ejemplo] have
    "map_of (por_region (AnalizadorVentas_analizar decimal_lib ventas_ejemplo)) ''A'' =
      (map_of (calcular_totales_por_grupo decimal_lib ventas_ejemplo ''region'' ''total'') |` grupos_con_total ventas_ejemplo ''region'' ''total'') ''A''"
    by simp
  with f g t show ?thesis by simp
qed

text \<open>
  The two maps are not equal in general: for a single record of region A whose total is
  null, the analyzer has no entry for A and \<open>calcular_totales_por_grupo\<close> has the entry 0.
\<close>

theorem ventas_por_grupo_counterexample:
  "map_of (por_region (AnalizadorVentas_analizar decimal_lib
      \<lparr>nombre = ''ventas'', registros = [[(''region'', Some ''A''), (''total'', None)]]\<rparr>))
    \<noteq> map_of (calcular_totales_por_grupo decimal_lib
      \<lparr>nombre = ''ventas'', registros = [[(''region'', Some ''A''), (''total'', None)]]\<rparr>
      ''region'' ''total'')
   \<and> map_of (por_region (AnalizadorVentas_analizar decimal_lib
      \<lparr>nombre = ''ventas'', registros = [[(''region'', Some ''A''), (''total'', None)]]\<rparr>)) ''A'' = None
   \<and> map_of (calcular_totales_por_grupo decimal_lib
      \<lparr>nombre = ''ventas'', registros = [[(''region'', Some ''A''), (''total'', None)]]\<rparr>
      ''region'' ''total'') ''A'' = Some 0"
proof -
  let ?D = "\<lparr>nombre = ''ventas'', registros = [[(''region'', Some ''A''), (''total'', None)]]\<rparr>"
  have a: "map_of (por_region (AnalizadorVentas_analizar decimal_lib ?D)) ''A'' = None"
    by (simp add: AnalizadorVentas_analizar_def esta_vacio_def Let_def analizar_por_campo_def
        analizar_por_campo_paso_def obtener_registros_def obtener_campo_def truthy_def)
  have t: "map_of (calcular_totales_por_grupo decimal_lib ?D ''region'' ''total'') ''A'' = Some 0"
    by (simp add: map_of_calcular_totales_por_grupo set_obtener_valores_campo obtener_campo_def
        sumar_campo_def decimal_lib_def round2_decimal_def)
  from a t have "map_of (por_region (AnalizadorVentas_analizar decimal_lib ?D))
      \<noteq> map_of (calcular_totales_por_grupo decimal_lib ?D ''region'' ''total'')"
    by (metis option.distinct(1))
  with a t show ?thesis by simp
qed


section \<open>The mode in \_estadisticas\_numericas\<close>

lemma map_of_contar:
  "map_of (contar xs fr) x =
     (if x \<in> set xs \<or> map_of fr x \<noteq> None
      then Some ((case map_of fr x of None \<Rightarrow> 0 | Some c \<Rightarrow> c) + count_list xs x)
      else None)"
  by (induction xs arbitrary: fr) (auto simp: update_conv' split: option.splits)

lemma map_of_contar_Nil:
  "map_of (contar xs []) x = (if x \<in> set xs then Some (count_list xs x) else None)"
  by (simp add: map_of_contar)

lemma distinct_contar: "distinct (map fst fr) \<Longrightarrow> distinct (map fst (contar xs fr))"
  by (induction xs arbitrary: fr) (simp_all add: distinct_update)

lemma keys_contar: "fst ` set (contar xs fr) = fst ` set fr \<union> set xs"
  by (induction xs arbitrary: fr) (auto simp: dom_update)

lemma contar_Nil_iff: "contar xs [] = [] \<longleftrightarrow> xs = []"
  using keys_contar [of xs "[]"] by (cases xs) auto

lemma in_contar_iff:
  "(x, c) \<in> set (contar xs []) \<longleftrightarrow> x \<in> set xs \<and> c = count_list xs x"
proof -
  have "(x, c) \<in> set (contar xs []) \<longleftrightarrow> map_of (contar xs []) x = Some c"
    by (simp add: distinct_contar)
  then show ?thesis by (auto simp: map_of_contar_Nil)
qed

lemma py_max_key_loop_max:
  "py_max_key_loop f xs b \<in> set (b # xs) \<and> (\<forall>z \<in> set (b # xs). f z \<le> f (py_max_key_loop f xs b))"
proof (induction xs arbitrary: b)
  case Nil
  show ?case by simp
next
  case (Cons x xs)
  from Cons.IH [of "if f b < f x then x else b"] show ?case
    by (auto split: if_splits)
qed

lemma py_max_key_Some:
  "xs \<noteq> [] \<Longrightarrow> \<exists>m. py_max_key f xs = Some m \<and> m \<in> set xs \<and> (\<forall>z \<in> set xs. f z \<le> f m)"
  using py_max_key_loop_max [of f "tl xs" "hd xs"]
  by (cases xs) (simp_all add: py_max_key_def)


lemma py_counter_snoc: "py_counter eq (xs @ [x]) c = incrementar eq x (py_counter eq xs c)"
  by (induction xs arbitrary: c) simp_all

lemma incrementar_no_vacio: "incrementar eq x c \<noteq> []"
  by (cases c) simp_all

lemma py_counter_no_vacio: "xs \<noteq> [] \<Longrightarrow> py_counter eq xs [] \<noteq> []"
  by (cases xs rule: rev_cases) (simp_all add: py_counter_snoc incrementar_no_vacio)

lemma incrementar_filter_otros:
  assumes "\<not> P x" and "\<forall>p \<in> set c. eq (fst p) x \<longrightarrow> \<not> P (fst p)"
  shows "filter (\<lambda>p. P (fst p)) (incrementar eq x c) = filter (\<lambda>p. P (fst p)) c"
  using assms by (induction c) auto

lemma incrementar_filter_clase:
  assumes "P x" and "\<forall>p \<in> set c. eq (fst p) x \<longleftrightarrow> P (fst p)"
  shows "filter (\<lambda>p. P (fst p)) (incrementar eq x c) =
           (case filter (\<lambda>p. P (fst p)) c of
              [] \<Rightarrow> [(x, 1)]
            | p # ps \<Rightarrow> (fst p, snd p + 1) # ps)"
  using assms by (induction c) auto

lemma in_incrementar:
  "p \<in> set (incrementar eq x c) \<Longrightarrow>
     p \<in> set c \<or> p = (x, 1) \<or> (\<exists>q \<in> set c. eq (fst q) x \<and> p = (fst q, snd q + 1))"
  by (induction c) (auto split: if_splits)

lemma find_snoc:
  "List.find P (xs @ [x]) =
     (case List.find P xs of None \<Rightarrow> (if P x then Some x else None) | Some y \<Rightarrow> Some y)"
  by (induction xs) simp_all

lemma py_counter_clase:
  assumes s: "symp eq" and t: "transp eq"
  shows "filter (\<lambda>p. eq v (fst p)) (py_counter eq xs []) =
           (case List.find (eq v) xs of
              None \<Rightarrow> []
            | Some m \<Rightarrow> [(m, length (filter (eq v) xs))])"
proof (induction xs rule: rev_induct)
  case Nil
  show ?case by simp
next
  case (snoc x xs)
  let ?c = "py_counter eq xs []"
  show ?case
  proof (cases "eq v x")
    case True
    have "\<forall>p \<in> set ?c. eq (fst p) x \<longleftrightarrow> eq v (fst p)"
      using True s t by (meson sympD transpD)
    from incrementar_filter_clase [of "eq v" x ?c eq, OF True this]
    have f: "filter (\<lambda>p. eq v (fst p)) (incrementar eq x ?c) =
        (case filter (\<lambda>p. eq v (fst p)) ?c of [] \<Rightarrow> [(x, 1)] | p # ps \<Rightarrow> (fst p, snd p + 1) # ps)" .
    show ?thesis
    proof (cases "List.find (eq v) xs")
      case None
      then have "filter (eq v) xs = []"
        by (auto simp: find_None_iff filter_empty_conv)
      with None True f snoc.IH show ?thesis
        by (simp add: py_counter_snoc find_snoc)
    next
      case (Some m)
      with True f snoc.IH show ?thesis
        by (simp add: py_counter_snoc find_snoc)
    qed
  next
    case False
    have "\<forall>p \<in> set ?c. eq (fst p) x \<longrightarrow> \<not> eq v (fst p)"
      using False t by (meson transpD)
    from incrementar_filter_otros [of "eq v" x ?c eq, OF False this] False snoc.IH
    show ?thesis
      by (simp add: py_counter_snoc find_snoc split: option.splits)
  qed
qed

lemma py_counter_cota:
  assumes s: "symp eq" and t: "transp eq"
  shows "p \<in> set (py_counter eq xs []) \<Longrightarrow>
           fst p \<in> set xs \<and> snd p \<le> max 1 (length (filter (eq (fst p)) xs))"
proof (induction xs arbitrary: p rule: rev_induct)
  case Nil
  then show ?case by simp
next
  case (snoc x xs)
  let ?c = "py_counter eq xs []"
  from snoc.prems have "p \<in> set (incrementar eq x ?c)"
    by (simp add: py_counter_snoc)
  from in_incrementar [OF this] consider
      (old) "p \<in> set ?c"
    | (new) "p = (x, 1)"
    | (inc) q where "q \<in> set ?c" "eq (fst q) x" "p = (fst q, snd q + 1)"
    by blast
  then show ?case
  proof cases
    case old
    from snoc.IH [OF old] show ?thesis by auto
  next
    case new
    then show ?thesis by simp
  next
    case inc
    from snoc.IH [OF inc(1)] have q: "fst q \<in> set xs"
      "snd q \<le> max 1 (length (filter (eq (fst q)) xs))" by simp_all
    from inc(2) s t have "eq (fst q) (fst q)"
      by (meson sympD transpD)
    with q(1) have "filter (eq (fst q)) xs \<noteq> []"
      by (auto simp: filter_empty_conv)
    then have "1 \<le> length (filter (eq (fst q)) xs)"
      by (cases "filter (eq (fst q)) xs") simp_all
    with q inc show ?thesis by simp
  qed
qed

lemma statistics_mode_unica:
  assumes s: "symp eq" and t: "transp eq"
    and v: "v \<in> set xs" "eq v v"
    and u: "\<forall>w \<in> set xs. \<not> eq v w \<longrightarrow> max 1 (length (filter (eq w) xs)) < length (filter (eq v) xs)"
  shows "\<exists>m. List.find (eq v) xs = Some m \<and> eq v m \<and> statistics_mode eq xs = Inr m"
proof -
  let ?c = "py_counter eq xs []"
  let ?N = "length (filter (eq v) xs)"
  from v obtain m where m: "List.find (eq v) xs = Some m"
    by (cases "List.find (eq v) xs") (auto simp: find_None_iff)
  then have vm: "eq v m" by (auto simp: find_Some_iff)
  from py_counter_clase [OF s t, of v xs] m
  have cl: "filter (\<lambda>p. eq v (fst p)) ?c = [(m, ?N)]" by simp
  then have "(m, ?N) \<in> set (filter (\<lambda>p. eq v (fst p)) ?c)" by simp
  then have inc: "(m, ?N) \<in> set ?c" by simp
  from v(1) have "xs \<noteq> []" by auto
  then have "?c \<noteq> []" by (rule py_counter_no_vacio)
  from py_max_key_Some [OF this, of snd] obtain p where
    p: "py_max_key snd ?c = Some p" "p \<in> set ?c" "\<forall>z \<in> set ?c. snd z \<le> snd p"
    by blast
  from p(3) inc have ge: "?N \<le> snd p" by fastforce
  have "eq v (fst p)"
  proof (rule ccontr)
    assume n: "\<not> eq v (fst p)"
    from py_counter_cota [OF s t p(2)] have
      "fst p \<in> set xs" "snd p \<le> max 1 (length (filter (eq (fst p)) xs))" by simp_all
    with u n have "snd p < ?N" by fastforce
    with ge show False by simp
  qed
  with p(2) have "p \<in> set (filter (\<lambda>p. eq v (fst p)) ?c)" by simp
  with cl have "p = (m, ?N)" by simp
  with p(1) m vm show ?thesis
    by (simp add: statistics_mode_def)
qed

lemma statistics_mode_Inl: "statistics_mode eq xs = Inl e \<Longrightarrow> e = StatisticsError"
  by (auto simp: statistics_mode_def split: option.splits)

lemma estadisticas_numericas_isl:
  "isl (estadisticas_numericas L xs) \<longleftrightarrow> \<not> estadisticas_sin_error L xs"
  by (auto simp: estadisticas_numericas_def estadisticas_sin_error_def entonces_def
      dest: statistics_mode_Inl split: sum.splits if_splits)

lemma moda_estadisticas_numericas:
  "estadisticas_sin_error L xs \<Longrightarrow>
   moda (projr (estadisticas_numericas L xs)) =
     (case statistics_mode (py_eq L) xs of Inr m \<Rightarrow> Some (py_round2 L m) | Inl e \<Rightarrow> None)"
  by (auto simp: estadisticas_numericas_def estadisticas_sin_error_def entonces_def
      dest: statistics_mode_Inl split: sum.splits if_splits)

text \<open>
  C1, as the code has it.  Take values on which none of the library calls of
  \<open>_estadisticas_numericas\<close> raises, and \<open>==\<close> symmetric and transitive, as it is on floats.
  When one of the values is equal to itself (it is not a nan) and is more frequent than every
  value not equal to it, a value of another kind counting at least once, then the function
  returns, and the mode it reports is the first of the values equal to that value, rounded to
  2 decimals.
\<close>

theorem moda_correct:
  assumes "estadisticas_sin_error L valores"
    and "symp (py_eq L)" and "transp (py_eq L)"
    and "v \<in> set valores" and "py_eq L v v"
    and "\<forall>w \<in> set valores. \<not> py_eq L v w \<longrightarrow>
           max 1 (length (filter (py_eq L w) valores)) < length (filter (py_eq L v) valores)"
  shows "\<not> isl (estadisticas_numericas L valores)
         \<and> (\<exists>m. List.find (py_eq L v) valores = Some m \<and> py_eq L v m
                \<and> moda (projr (estadisticas_numericas L valores)) = Some (py_round2 L m))"
proof -
  from statistics_mode_unica [OF assms(2-6)] obtain m where
    m: "List.find (py_eq L v) valores = Some m" "py_eq L v m"
       "statistics_mode (py_eq L) valores = Inr m"
    by blast
  from moda_estadisticas_numericas [OF assms(1)] m(3)
  have "moda (projr (estadisticas_numericas L valores)) = Some (py_round2 L m)"
    by simp
  with m(1,2) assms(1) show ?thesis
    by (simp add: estadisticas_numericas_isl)
qed

lemma decimal_sin_error: "2 \<le> length xs \<Longrightarrow> estadisticas_sin_error decimal_lib xs"
  by (cases xs)
     (auto simp: estadisticas_sin_error_def decimal_lib_def mean_decimal_def median_decimal_def
      min_decimal_def max_decimal_def stdev_decimal_def variance_decimal_def Let_def)

theorem moda_witness:
  "estadisticas_sin_error decimal_lib [1 / 16, 5, 1 / 16]
   \<and> \<not> isl (estadisticas_numericas decimal_lib [1 / 16, 5, 1 / 16])
   \<and> moda (projr (estadisticas_numericas decimal_lib [1 / 16, 5, 1 / 16])) = Some (6 / 100)"
proof -
  have e: "estadisticas_sin_error decimal_lib [1 / 16, 5, 1 / 16]"
    by (rule decimal_sin_error) simp
  have q: "py_eq decimal_lib = (=)" "py_round2 decimal_lib = round2_decimal"
    by (simp_all add: decimal_lib_def)
  have s: "symp (py_eq decimal_lib)" and t: "transp (py_eq decimal_lib)"
    unfolding q by (simp_all add: symp_def transp_def)
  have u: "\<forall>w \<in> set [1 / 16, 5, 1 / 16 :: real]. \<not> py_eq decimal_lib (1 / 16) w \<longrightarrow>
      max 1 (length (filter (py_eq decimal_lib w) [1 / 16, 5, 1 / 16]))
        < length (filter (py_eq decimal_lib (1 / 16)) [1 / 16, 5, 1 / 16])"
    unfolding q by simp
  have r: "round2_decimal (1 / 16) = 6 / 100"
    by (simp add: round2_decimal_def Let_def)
  from moda_correct [OF e s t _ _ u] obtain m where
    n: "\<not> isl (estadisticas_numericas decimal_lib [1 / 16, 5, 1 / 16])" and
    m: "List.find (py_eq decimal_lib (1 / 16)) [1 / 16, 5, 1 / 16] = Some m"
       "moda (projr (estadisticas_numericas decimal_lib [1 / 16, 5, 1 / 16])) = Some (py_round2 decimal_lib m)"
    unfolding q by auto
  from m(1) have "m = 1 / 16"
    unfolding q by simp
  with m(2) e n show ?thesis
    unfolding q by (simp only: r simp_thms)
qed

text \<open>
  The mode reported is not the most frequent value itself where rounding changes it (the
  values 0.0625, 5, 0.0625 give 0.06), and it is not null for values without a unique most
  frequent one: for the values 1 and 2, each occurring once, it is 1, the first of them.
\<close>

theorem moda_counterexample:
  "\<not> isl (estadisticas_numericas decimal_lib [1 / 16, 5, 1 / 16])
   \<and> moda (projr (estadisticas_numericas decimal_lib [1 / 16, 5, 1 / 16])) \<noteq> Some (1 / 16)
   \<and> \<not> isl (estadisticas_numericas decimal_lib [1, 2])
   \<and> moda (projr (estadisticas_numericas decimal_lib [1, 2])) = Some 1
   \<and> count_list [1, 2 :: real] 1 = count_list [1, 2 :: real] 2"
proof -
  have q: "py_eq decimal_lib = (=)" "py_round2 decimal_lib = round2_decimal"
    by (simp_all add: decimal_lib_def)
  have r: "round2_decimal (1 / 16) = 6 / 100" "round2_decimal 1 = 1"
    by (simp_all add: round2_decimal_def Let_def)
  have e1: "estadisticas_sin_error decimal_lib [1 / 16, 5, 1 / 16]"
    and e2: "estadisticas_sin_error decimal_lib [1, 2]"
    by (rule decimal_sin_error, simp)+
  have m1: "statistics_mode (=) [1 / 16, 5, 1 / 16 :: real] = Inr (1 / 16)"
    and m2: "statistics_mode (=) [1, 2 :: real] = Inr 1"
    by (simp_all add: statistics_mode_def py_max_key_def)
  from e1 e2 show ?thesis
    by (simp add: estadisticas_numericas_isl moda_estadisticas_numericas q r m1 m2)
qed


text \<open>
  A nan is counted on its own each time: with \<open>None\<close> for a nan among the numbers, the mode
  of 1, nan, nan is 1.
\<close>

lemma statistics_mode_nan:
  "statistics_mode (\<lambda>a b. a \<noteq> None \<and> a = b) [Some (1::real), None, None] = Inr (Some 1)"
  by (simp add: statistics_mode_def py_max_key_def)


section \<open>AnalizadorEstadistico.analizar\<close>

lemma valores_numericos_loop_eq:
  "valores_numericos_loop L vs acc = acc @ List.map_filter (py_float L) vs"
  by (induction vs arbitrary: acc) (simp_all split: option.splits)

lemma analizar_campo_eq:
  "analizar_campo L D f =
     (if obtener_valores_campo D f = [] then Inr None
      else if 2 \<le> length (columna_numerica L D f)
      then entonces (estadisticas_numericas L (columna_numerica L D f)) (\<lambda>e. Inr (Some (Numerico e)))
      else Inr (Some (Categorico (estadisticas_categoricas (obtener_valores_campo D f)))))"
  by (simp add: analizar_campo_def Let_def valores_numericos_loop_eq columna_numerica_def)

lemma analizar_campo_isl:
  "isl (analizar_campo L D f) \<longleftrightarrow>
     2 \<le> length (columna_numerica L D f) \<and> \<not> estadisticas_sin_error L (columna_numerica L D f)"
proof -
  have "obtener_valores_campo D f = [] \<Longrightarrow> columna_numerica L D f = []"
    by (simp add: columna_numerica_def)
  then show ?thesis
    using estadisticas_numericas_isl [of L "columna_numerica L D f"]
    by (auto simp: analizar_campo_eq entonces_def split: sum.splits)
qed

lemma analizar_campos_loop_Inr:
  assumes "\<forall>g \<in> set fs. \<not> isl (analizar_campo L D g)"
  shows "\<exists>cs. analizar_campos_loop L D fs cs0 = Inr cs
           \<and> (\<forall>f. map_of cs f =
                  (if f \<in> set fs \<and> projr (analizar_campo L D f) \<noteq> None
                   then projr (analizar_campo L D f) else map_of cs0 f))"
  using assms
proof (induction fs arbitrary: cs0)
  case Nil
  show ?case by simp
next
  case (Cons g fs)
  from Cons.prems obtain r where r: "analizar_campo L D g = Inr r"
    by (cases "analizar_campo L D g") auto
  from Cons.prems have rest: "\<forall>g \<in> set fs. \<not> isl (analizar_campo L D g)" by simp
  show ?case
  proof (cases r)
    case None
    with r Cons.IH [OF rest, of cs0] show ?thesis by auto
  next
    case (Some e)
    with r Cons.IH [OF rest, of "AList.update g e cs0"] show ?thesis
      by (auto simp: update_conv')
  qed
qed

lemma analizar_sin_error:
  assumes "registros D \<noteq> []"
    and "\<forall>g \<in> set (obtener_campos D). \<not> isl (analizar_campo L D g)"
  shows "\<not> isl (AnalizadorEstadistico_analizar L D)
         \<and> e_total_registros (projr (AnalizadorEstadistico_analizar L D)) = length (registros D)
         \<and> map_of (campos (projr (AnalizadorEstadistico_analizar L D))) f =
             (if f \<in> set (obtener_campos D) then projr (analizar_campo L D f) else None)"
proof -
  from analizar_campos_loop_Inr [OF assms(2), of "[]"] obtain cs where
    cs: "analizar_campos_loop L D (obtener_campos D) [] = Inr cs"
        "\<And>f. map_of cs f = (if f \<in> set (obtener_campos D) \<and> projr (analizar_campo L D f) \<noteq> None
                   then projr (analizar_campo L D f) else None)"
    by auto
  from assms(1) cs(1) have
    "AnalizadorEstadistico_analizar L D =
       Inr \<lparr>e_total_registros = length (registros D), campos = cs\<rparr>"
    by (simp add: AnalizadorEstadistico_analizar_def esta_vacio_def entonces_def Let_def
        cantidad_registros_def)
  with cs(2) [of f] show ?thesis by auto
qed

lemma categoricas_mas_comun:
  assumes "valores \<noteq> []"
  shows "\<exists>m. valor_mas_comun (estadisticas_categoricas valores) = Some m \<and> m \<in> set valores
           \<and> (\<forall>w \<in> set valores. count_list valores w \<le> count_list valores m)
           \<and> (m \<noteq> [] \<longrightarrow> frecuencia_mas_comun (estadisticas_categoricas valores)
                              = count_list valores m)"
proof -
  let ?fr = "contar valores []"
  from assms have ne: "?fr \<noteq> []" by (simp add: contar_Nil_iff)
  then have ne': "map fst ?fr \<noteq> []" by simp
  from py_max_key_Some [OF ne', of "\<lambda>k. map_of ?fr k"] obtain m where
    m: "py_max_key (\<lambda>k. map_of ?fr k) (map fst ?fr) = Some m" "m \<in> set (map fst ?fr)"
       "\<forall>z \<in> set (map fst ?fr). map_of ?fr z \<le> map_of ?fr m"
    by blast
  have keys: "set (map fst ?fr) = set valores"
    using keys_contar [of valores "[]"] by simp
  have "count_list valores w \<le> count_list valores m" if "w \<in> set valores" for w
    using m(2,3) that unfolding keys by (auto simp: map_of_contar_Nil)
  moreover have "valor_mas_comun (estadisticas_categoricas valores) = Some m"
    using ne m(1) by (simp add: estadisticas_categoricas_def Let_def)
  moreover have "frecuencia_mas_comun (estadisticas_categoricas valores) = count_list valores m"
    if "m \<noteq> []"
  proof -
    have "frecuencia_mas_comun (estadisticas_categoricas valores) =
            (case map_of ?fr m of None \<Rightarrow> 0 | Some c \<Rightarrow> c)"
      using ne m(1) that by (simp add: estadisticas_categoricas_def Let_def truthy_def)
    also have "\<dots> = count_list valores m"
      using m(2) unfolding keys by (simp add: map_of_contar_Nil)
    finally show ?thesis .
  qed
  ultimately show ?thesis using m(2) unfolding keys by blast
qed


text \<open>
  C3, as the code has it.  Take a dataset that is not empty and such that, for each field
  of its first record with at least two values accepted by \<open>float\<close>, none of the library
  calls of the numeric statistics raises on these values.  Then \<open>analizar\<close> returns, and for
  a field \<open>f\<close> of the first record its result has an entry for \<open>f\<close> exactly when some value
  of \<open>f\<close> is not null; the entry is the numeric statistics of the coerced values when at
  least two of the values that are not null are accepted by \<open>float\<close>, and the categorical
  statistics of the values otherwise.  The categorical statistics of values \<open>vs\<close> hold the
  number of values, the number of distinct values, the map from each value to its frequency,
  and a value that no other value exceeds in frequency, together with its frequency when
  that value is not the empty string.
\<close>

theorem analizar_campos_correct:
  assumes "registros D \<noteq> []" and "f \<in> set (obtener_campos D)"
    and "\<forall>g \<in> set (obtener_campos D).
           2 \<le> length (columna_numerica L D g) \<longrightarrow> estadisticas_sin_error L (columna_numerica L D g)"
  shows "\<not> isl (AnalizadorEstadistico_analizar L D)
       \<and> map_of (campos (projr (AnalizadorEstadistico_analizar L D))) f =
           (if obtener_valores_campo D f = [] then None
            else if 2 \<le> length (columna_numerica L D f)
            then Some (Numerico (projr (estadisticas_numericas L (columna_numerica L D f))))
            else Some (Categorico (estadisticas_categoricas (obtener_valores_campo D f))))
       \<and> (2 \<le> length (columna_numerica L D f) \<longrightarrow>
            \<not> isl (estadisticas_numericas L (columna_numerica L D f)))
       \<and> cat_total_valores (estadisticas_categoricas vs) = length vs
       \<and> valores_unicos (estadisticas_categoricas vs) = card (set vs)
       \<and> map_of (distribucion (estadisticas_categoricas vs)) w =
           (if w \<in> set vs then Some (count_list vs w) else None)
       \<and> (vs \<noteq> [] \<longrightarrow>
            (\<exists>m. valor_mas_comun (estadisticas_categoricas vs) = Some m \<and> m \<in> set vs
               \<and> (\<forall>w \<in> set vs. count_list vs w \<le> count_list vs m)
               \<and> (m \<noteq> [] \<longrightarrow> frecuencia_mas_comun (estadisticas_categoricas vs) = count_list vs m)))"
proof (intro conjI)
  have ok: "\<forall>g \<in> set (obtener_campos D). \<not> isl (analizar_campo L D g)"
    using assms(3) by (simp add: analizar_campo_isl)
  note a = analizar_sin_error [OF assms(1) ok, of f]
  from a show "\<not> isl (AnalizadorEstadistico_analizar L D)" by simp
  show n: "2 \<le> length (columna_numerica L D f) \<longrightarrow>
            \<not> isl (estadisticas_numericas L (columna_numerica L D f))"
    using assms(2,3) by (simp add: estadisticas_numericas_isl)
  have "projr (analizar_campo L D f) =
           (if obtener_valores_campo D f = [] then None
            else if 2 \<le> length (columna_numerica L D f)
            then Some (Numerico (projr (estadisticas_numericas L (columna_numerica L D f))))
            else Some (Categorico (estadisticas_categoricas (obtener_valores_campo D f))))"
    using n by (auto simp: analizar_campo_eq entonces_def split: sum.splits)
  with a assms(2)
  show "map_of (campos (projr (AnalizadorEstadistico_analizar L D))) f =
           (if obtener_valores_campo D f = [] then None
            else if 2 \<le> length (columna_numerica L D f)
            then Some (Numerico (projr (estadisticas_numericas L (columna_numerica L D f))))
            else Some (Categorico (estadisticas_categoricas (obtener_valores_campo D f))))"
    by simp
  show "cat_total_valores (estadisticas_categoricas vs) = length vs"
    by (simp add: estadisticas_categoricas_def Let_def)
  show "valores_unicos (estadisticas_categoricas vs) = card (set vs)"
    by (simp add: estadisticas_categoricas_def Let_def length_remdups_card_conv)
  show "map_of (distribucion (estadisticas_categoricas vs)) w =
           (if w \<in> set vs then Some (count_list vs w) else None)"
    by (simp add: estadisticas_categoricas_def Let_def map_of_contar_Nil)
  show "vs \<noteq> [] \<longrightarrow>
            (\<exists>m. valor_mas_comun (estadisticas_categoricas vs) = Some m \<and> m \<in> set vs
               \<and> (\<forall>w \<in> set vs. count_list vs w \<le> count_list vs m)
               \<and> (m \<noteq> [] \<longrightarrow> frecuencia_mas_comun (estadisticas_categoricas vs) = count_list vs m))"
    using categoricas_mas_comun [of vs] by blast
qed

lemma ventas_ejemplo_valores:
  "obtener_valores_campo ventas_ejemplo ''region'' = [''A'', ''B'', ''A'']"
  "obtener_valores_campo ventas_ejemplo ''total'' = [''10'', ''20'', ''30'']"
  "obtener_campos ventas_ejemplo = [''total'', ''region'']"
  by (simp_all add: ventas_ejemplo_def obtener_valores_campo_def obtener_campo_def obtener_campos_def
      esta_vacio_def obtener_todos_campos_def)

lemma ventas_ejemplo_columnas:
  "columna_numerica decimal_lib ventas_ejemplo ''region'' = []"
  "columna_numerica decimal_lib ventas_ejemplo ''total'' = [10, 20, 30]"
  by (simp_all add: columna_numerica_def ventas_ejemplo_valores decimal_lib_def float_decimal_def
      digito_def Let_def)

theorem analizar_campos_witness:
  "registros ventas_ejemplo \<noteq> [] \<and> ''region'' \<in> set (obtener_campos ventas_ejemplo)
   \<and> ''total'' \<in> set (obtener_campos ventas_ejemplo)
   \<and> estadisticas_sin_error decimal_lib [10, 20, 30]
   \<and> \<not> isl (AnalizadorEstadistico_analizar decimal_lib ventas_ejemplo)
   \<and> map_of (campos (projr (AnalizadorEstadistico_analizar decimal_lib ventas_ejemplo))) ''region'' =
       Some (Categorico \<lparr>cat_total_valores = 3, valores_unicos = 2, valor_mas_comun = Some ''A'',
                frecuencia_mas_comun = 2, distribucion = [(''A'', 2), (''B'', 1)]\<rparr>)
   \<and> map_of (campos (projr (AnalizadorEstadistico_analizar decimal_lib ventas_ejemplo))) ''total'' =
       Some (Numerico (projr (estadisticas_numericas decimal_lib [10, 20, 30])))
   \<and> num_total_valores (projr (estadisticas_numericas decimal_lib [10, 20, 30])) = 3
   \<and> suma (projr (estadisticas_numericas decimal_lib [10, 20, 30])) = 60
   \<and> promedio (projr (estadisticas_numericas decimal_lib [10, 20, 30])) = 20"
proof -
  have r: "registros ventas_ejemplo \<noteq> []" by (simp add: ventas_ejemplo_def)
  have f1: "''region'' \<in> set (obtener_campos ventas_ejemplo)"
    and f2: "''total'' \<in> set (obtener_campos ventas_ejemplo)"
    by (simp_all add: ventas_ejemplo_valores)
  have e: "estadisticas_sin_error decimal_lib [10, 20, 30]"
    by (rule decimal_sin_error) simp
  have h: "\<forall>g \<in> set (obtener_campos ventas_ejemplo).
      2 \<le> length (columna_numerica decimal_lib ventas_ejemplo g) \<longrightarrow>
      estadisticas_sin_error decimal_lib (columna_numerica decimal_lib ventas_ejemplo g)"
    by (simp add: ventas_ejemplo_valores ventas_ejemplo_columnas e)
  have c: "estadisticas_categoricas [''A'', ''B'', ''A''] =
      \<lparr>cat_total_valores = 3, valores_unicos = 2, valor_mas_comun = Some ''A'',
                frecuencia_mas_comun = 2, distribucion = [(''A'', 2), (''B'', 1)]\<rparr>"
    by (simp add: estadisticas_categoricas_def py_max_key_def truthy_def Let_def)
  have n: "\<not> isl (AnalizadorEstadistico_analizar decimal_lib ventas_ejemplo)"
    using analizar_campos_correct [OF r f1 h, THEN conjunct1] .
  have e1: "map_of (campos (projr (AnalizadorEstadistico_analizar decimal_lib ventas_ejemplo))) ''region'' =
       Some (Categorico (estadisticas_categoricas [''A'', ''B'', ''A'']))"
    using analizar_campos_correct [OF r f1 h, THEN conjunct2, THEN conjunct1]
    unfolding ventas_ejemplo_valores ventas_ejemplo_columnas by simp
  have e2: "map_of (campos (projr (AnalizadorEstadistico_analizar decimal_lib ventas_ejemplo))) ''total'' =
       Some (Numerico (projr (estadisticas_numericas decimal_lib [10, 20, 30])))"
    using analizar_campos_correct [OF r f2 h, THEN conjunct2, THEN conjunct1]
    unfolding ventas_ejemplo_valores ventas_ejemplo_columnas by simp
  have m: "statistics_mode (=) [10, 20, 30 :: real] = Inr 10"
    by (simp add: statistics_mode_def py_max_key_def)
  have v: "num_total_valores (projr (estadisticas_numericas decimal_lib [10, 20, 30])) = 3
     \<and> suma (projr (estadisticas_numericas decimal_lib [10, 20, 30])) = 60
     \<and> promedio (projr (estadisticas_numericas decimal_lib [10, 20, 30])) = 20"
    by (simp add: estadisticas_numericas_def entonces_def decimal_lib_def mean_decimal_def
        median_decimal_def min_decimal_def max_decimal_def stdev_decimal_def variance_decimal_def
        m round2_decimal_def Let_def)
  show ?thesis
    using r f1 f2 e n e1 e2 v unfolding c by simp
qed

text \<open>
  A field whose values are all null has no entry, also in a dataset that is not empty.
\<close>

theorem analizar_campos_counterexample:
  "registros \<lparr>nombre = ''d'', registros = [[(''a'', None), (''b'', Some ''x'')]]\<rparr> \<noteq> []
   \<and> ''a'' \<in> set (obtener_campos \<lparr>nombre = ''d'', registros = [[(''a'', None), (''b'', Some ''x'')]]\<rparr>)
   \<and> \<not> isl (AnalizadorEstadistico_analizar decimal_lib
        \<lparr>nombre = ''d'', registros = [[(''a'', None), (''b'', Some ''x'')]]\<rparr>)
   \<and> map_of (campos (projr (AnalizadorEstadistico_analizar decimal_lib
        \<lparr>nombre = ''d'', registros = [[(''a'', None), (''b'', Some ''x'')]]\<rparr>))) ''a'' = None"
  by (simp add: AnalizadorEstadistico_analizar_def esta_vacio_def obtener_campos_def
      obtener_todos_campos_def analizar_campo_def obtener_valores_campo_def obtener_campo_def
      valores_numericos_loop_eq Let_def decimal_lib_def float_decimal_def digito_def entonces_def)

text \<open>
  When the most frequent value is the empty string, the frequency reported is 0: the test
  \<open>if valor_mas_comun\<close> is false for it.
\<close>

lemma categoricas_frecuencia_cadena_vacia:
  "valor_mas_comun (estadisticas_categoricas ['''', '''', ''a'']) = Some ''''
   \<and> frecuencia_mas_comun (estadisticas_categoricas ['''', '''', ''a'']) = 0
   \<and> count_list ['''', '''', ''a''] '''' = 2"
  by (simp add: estadisticas_categoricas_def py_max_key_def truthy_def Let_def)



text \<open>
  When the numeric statistics of some field raise, the exception ends \<open>analizar\<close>: there is
  no result.
\<close>

lemma analizar_campos_loop_Inl:
  "g \<in> set fs \<Longrightarrow> isl (analizar_campo L D g) \<Longrightarrow> isl (analizar_campos_loop L D fs cs0)"
  by (induction fs arbitrary: cs0) (auto split: sum.splits option.splits)

lemma analizar_error:
  "registros D \<noteq> [] \<Longrightarrow> g \<in> set (obtener_campos D) \<Longrightarrow> isl (analizar_campo L D g) \<Longrightarrow>
     isl (AnalizadorEstadistico_analizar L D)"
  using analizar_campos_loop_Inl [of g "obtener_campos D" L D "[]"]
  by (auto simp: AnalizadorEstadistico_analizar_def esta_vacio_def entonces_def Let_def
      split: sum.splits)

end
